theory Spec2Isabelle
  imports Complex_Main
begin

text \<open>
  A shallow embedding of the handlers of the production front end: the looks gallery
  (create, reorder), the schedule builder (add, delete, apply a template, duration labels)
  and the call sheet (preview, PDF export). Each handler is a function from the component's
  state, the remote collection and the outcome of its gateway calls to the state and
  collection it leaves, with the requests it issued and the dialogs and console messages
  it produced. Definitions come first, the properties proved of them after.
\<close>

section \<open>Shared vocabulary: user-visible effects and string helpers\<close>

text \<open>
  Every component of the front end talks to the user through the browser (\<open>confirm\<close>,
  \<open>alert\<close>) and to the developer through the console. The model keeps these calls in a
  log, in the order in which the code makes them.
\<close>

datatype effect =
    Confirm string
  | Alert string
  | ConsoleError string
  | ConsoleLog string

fun is_alert :: "effect \<Rightarrow> bool" where
  "is_alert (Alert m) = True"
| "is_alert e = False"

text \<open>
  \<open>String.prototype.trim\<close> removes white space and line terminators from both ends.
  A HOL character is one byte, read here as a code unit below 256: TAB, LF, VT, FF, CR,
  SP and NBSP are the white space of that range.
\<close>

definition is_ws :: "char \<Rightarrow> bool" where
  "is_ws c = (c = CHR 0x09 \<or> c = CHR 0x0A \<or> c = CHR 0x0B \<or> c = CHR 0x0C
              \<or> c = CHR 0x0D \<or> c = CHR 0x20 \<or> c = CHR 0xA0)"

definition trim :: "string \<Rightarrow> string" where
  "trim s = rev (dropWhile is_ws (rev (dropWhile is_ws s)))"

text \<open>Decimal rendering of a number, as a template literal does for an integer.\<close>

definition digit_char :: "nat \<Rightarrow> char" where
  "digit_char d = ''0123456789'' ! (d mod 10)"

fun show_nat :: "nat \<Rightarrow> string" where
  "show_nat n = (if n < 10 then [digit_char n] else show_nat (n div 10) @ [digit_char (n mod 10)])"

declare show_nat.simps [simp del]

definition show_int :: "int \<Rightarrow> string" where
  "show_int i = (if i < 0 then CHR ''-'' # show_nat (nat (- i)) else show_nat (nat i))"

section \<open>Looks gallery (LooksManagement)\<close>

text \<open>
  A row of the \<open>looks\<close> collection. The objects held in the component's state are the
  rows the gateway returned, so they carry every column. Field names are the source's,
  prefixed with the record's name.
\<close>

record look =
  look_id :: string
  look_production_id :: string
  look_name :: string
  look_description :: string
  look_image_url :: "string option"
  look_sequence_order :: int
  look_styling_notes :: string
  look_created_at :: string

text \<open>The payload of \<open>insert\<close> in \<open>createLook\<close>: the columns the code sets.\<close>

record look_insert =
  li_production_id :: string
  li_name :: string
  li_description :: string
  li_sequence_order :: int
  li_styling_notes :: string

text \<open>Calls made on the \<open>looks\<close> collection, as they are issued.\<close>

datatype look_request =
    LookInsert look_insert
  | LookUpdateOrder int string
  | LookUpdateImage string string

text \<open>
  The component's state (\<open>looks\<close>, \<open>newLookName\<close>), the remote collection it writes
  through to, the requests issued and the effects shown.
\<close>

record looks_world =
  looks :: "look list"
  newLookName :: string
  looks_table :: "look list"
  looks_next_id :: nat
  look_requests :: "look_request list"
  look_effects :: "effect list"

text \<open>
  Modelled from the spec: the record store gateway (the client in \<open>lib/supabase\<close> and
  the hosted backend are not among the sources). Section 6 gives its contract:
  insert returning the inserted rows, update by identity, delete by filter. A call either
  succeeds and has its effect on the collection, or fails and has none; which of the two
  happens is an input of each operation (\<open>ok\<close>). Identities are assigned by the store
  from a counter, the creation time is the store's clock (\<open>now\<close>).
\<close>

definition store_look :: "string \<Rightarrow> nat \<Rightarrow> look_insert \<Rightarrow> look" where
  "store_look now k p =
     \<lparr> look_id = show_nat k,
       look_production_id = li_production_id p,
       look_name = li_name p,
       look_description = li_description p,
       look_image_url = None,
       look_sequence_order = li_sequence_order p,
       look_styling_notes = li_styling_notes p,
       look_created_at = now \<rparr>"

definition set_order :: "int \<Rightarrow> string \<Rightarrow> look list \<Rightarrow> look list" where
  "set_order v i rows =
     map (\<lambda>r. if look_id r = i then r\<lparr>look_sequence_order := v\<rparr> else r) rows"

definition update_order :: "bool \<Rightarrow> int \<Rightarrow> string \<Rightarrow> looks_world \<Rightarrow> looks_world" where
  "update_order ok v i w =
     w\<lparr> look_requests := look_requests w @ [LookUpdateOrder v i],
        looks_table := (if ok then set_order v i (looks_table w) else looks_table w) \<rparr>"

subsection \<open>createLook\<close>

text \<open>
  \<open>Math.max(...looks.map(l => l.sequence_order))\<close> is only evaluated on a non-empty
  list; it is the fold of \<open>max\<close> over it. Indices are integers that a double holds
  exactly (below \<open>2 ^ 53\<close>, where adding 1 is exact), and the list is short enough to be
  spread into an argument list; beyond either limit the code departs from this definition.
\<close>

definition nextOrder :: "look list \<Rightarrow> int" where
  "nextOrder ls =
     (case ls of
        [] \<Rightarrow> 0
      | l # rest \<Rightarrow> fold max (map look_sequence_order rest) (look_sequence_order l) + 1)"

definition createLook :: "bool \<Rightarrow> string \<Rightarrow> string \<Rightarrow> looks_world \<Rightarrow> looks_world" where
  "createLook ok now pid w =
     (if trim (newLookName w) = [] then w
      else
        let payload = \<lparr> li_production_id = pid,
                        li_name = trim (newLookName w),
                        li_description = [],
                        li_sequence_order = nextOrder (looks w),
                        li_styling_notes = [] \<rparr>;
            w1 = w\<lparr> look_requests := look_requests w @ [LookInsert payload] \<rparr>
        in if \<not> ok
           then w1\<lparr> look_effects := look_effects w1 @ [ConsoleError ''Error creating look:''] \<rparr>
           else
             let row = store_look now (looks_next_id w1) payload
             in w1\<lparr> looks_table := looks_table w1 @ [row],
                    looks_next_id := looks_next_id w1 + 1,
                    looks := looks w1 @ [row],
                    newLookName := [] \<rparr>)"

subsection \<open>updateImageUrl\<close>

definition updateImageUrl :: "bool \<Rightarrow> string \<Rightarrow> string \<Rightarrow> looks_world \<Rightarrow> looks_world" where
  "updateImageUrl ok lookId imageUrl w =
     (let w0 = w\<lparr> look_effects := look_effects w @ [ConsoleLog ''Updating image URL for look:''],
                  look_requests := look_requests w @ [LookUpdateImage imageUrl lookId] \<rparr>
      in if \<not> ok
         then w0\<lparr> look_effects := look_effects w0 @
                     [ConsoleError ''Failed to update image URL:'', Alert ''Failed to save image URL''] \<rparr>
         else w0\<lparr> looks_table := map (\<lambda>r. if look_id r = lookId
                                            then r\<lparr>look_image_url := Some imageUrl\<rparr> else r)
                                      (looks_table w0),
                   looks := map (\<lambda>l. if look_id l = lookId
                                      then l\<lparr>look_image_url := Some imageUrl\<rparr> else l)
                                (looks w0),
                   look_effects := look_effects w0 @ [ConsoleLog ''Image URL updated successfully''] \<rparr>)"

subsection \<open>moveUp and moveDown\<close>

text \<open>
  Both handlers copy the array, swap two slots, write the new positions into the two
  objects and only then call \<open>setLooks\<close>. The copy is shallow: the objects are shared with
  the state, so a write to \<open>sequence_order\<close> is visible in the state even when the handler
  throws before \<open>setLooks\<close>. Reading a slot outside the array gives \<open>undefined\<close>, and
  assigning to a property of \<open>undefined\<close> throws a TypeError; the model writes each of
  these cases out. The index is an integer (the handlers are called with array positions).
\<close>

datatype 'a outcome = Returned 'a | TypeError 'a

fun world_of :: "'a outcome \<Rightarrow> 'a" where
  "world_of (Returned w) = w"
| "world_of (TypeError w) = w"

definition moveUp :: "bool \<Rightarrow> bool \<Rightarrow> int \<Rightarrow> looks_world \<Rightarrow> looks_world outcome" where
  "moveUp ok1 ok2 index w =
     (if index = 0 then Returned w
      else
        let n = int (length (looks w)) in
        if 0 < index \<and> index < n then
          let i = nat index;
              temp = looks w ! i;
              newLooks = (looks w)[i := looks w ! (i - 1)];
              newLooks = newLooks[i - 1 := temp];
              newLooks = newLooks[i := (newLooks ! i)\<lparr>look_sequence_order := index\<rparr>];
              newLooks = newLooks[i - 1 := (newLooks ! (i - 1))\<lparr>look_sequence_order := index - 1\<rparr>];
              w1 = w\<lparr> looks := newLooks \<rparr>;
              w2 = update_order ok1 index (look_id (newLooks ! i)) w1;
              w3 = update_order ok2 (index - 1) (look_id (newLooks ! (i - 1))) w2
          in Returned w3
        else if index = n then
          \<comment> \<open>slot \<open>index\<close> receives the last object, slot \<open>index - 1\<close> becomes \<open>undefined\<close>\<close>
          let j = nat (index - 1)
          in TypeError (w\<lparr> looks := (looks w)[j := (looks w ! j)\<lparr>look_sequence_order := index\<rparr>] \<rparr>)
        else
          \<comment> \<open>slot \<open>index\<close> holds \<open>undefined\<close> after the swap\<close>
          TypeError w)"

definition moveDown :: "bool \<Rightarrow> bool \<Rightarrow> int \<Rightarrow> looks_world \<Rightarrow> looks_world outcome" where
  "moveDown ok1 ok2 index w =
     (let n = int (length (looks w)) in
      if index = n - 1 then Returned w
      else if 0 \<le> index \<and> index + 1 < n then
        let i = nat index;
            temp = looks w ! i;
            newLooks = (looks w)[i := looks w ! (i + 1)];
            newLooks = newLooks[i + 1 := temp];
            newLooks = newLooks[i := (newLooks ! i)\<lparr>look_sequence_order := index\<rparr>];
            newLooks = newLooks[i + 1 := (newLooks ! (i + 1))\<lparr>look_sequence_order := index + 1\<rparr>];
            w1 = w\<lparr> looks := newLooks \<rparr>;
            w2 = update_order ok1 index (look_id (newLooks ! i)) w1;
            w3 = update_order ok2 (index + 1) (look_id (newLooks ! (i + 1))) w2
        in Returned w3
      else if index = - 1 then
        \<comment> \<open>property \<open>-1\<close> receives the first object, slot \<open>0\<close> becomes \<open>undefined\<close>\<close>
        TypeError (w\<lparr> looks := (looks w)[0 := (looks w ! 0)\<lparr>look_sequence_order := index\<rparr>] \<rparr>)
      else
        TypeError w)"


section \<open>Schedule builder (ScheduleBuilder)\<close>

text \<open>
  A template's \<open>template_data\<close> is typed \<open>any[]\<close>: a blueprint's property may hold any
  JSON value or be absent (\<open>undefined\<close>). Numbers are integers here; an array or object is
  kept as its text and is always truthy. Every element of \<open>template_data\<close> is an object.
\<close>

datatype jsval = Undefined | Null | JBool bool | JNum int | JStr string | JObject string

fun truthy :: "jsval \<Rightarrow> bool" where
  "truthy Undefined = False"
| "truthy Null = False"
| "truthy (JBool b) = b"
| "truthy (JNum n) = (n \<noteq> 0)"
| "truthy (JStr s) = (s \<noteq> [])"
| "truthy (JObject s) = True"

text \<open>The operator \<open>a || b\<close>.\<close>

definition js_or :: "jsval \<Rightarrow> jsval \<Rightarrow> jsval" where
  "js_or a b = (if truthy a then a else b)"

text \<open>
  A request body is JSON: a property holding \<open>undefined\<close> is not sent, and the column is
  stored as null.
\<close>

fun to_json :: "jsval \<Rightarrow> jsval" where
  "to_json Undefined = Null"
| "to_json v = v"

record blueprint =
  bp_title :: jsval
  bp_description :: jsval
  bp_start_time :: jsval
  bp_end_time :: jsval
  bp_category :: jsval
  bp_location :: jsval
  bp_notes :: jsval

text \<open>The object literal passed to \<open>insert\<close> by \<open>addScheduleItem\<close> and \<open>applyTemplate\<close>.\<close>

record item_insert =
  ii_production_id :: string
  ii_title :: jsval
  ii_description :: jsval
  ii_start_time :: jsval
  ii_end_time :: jsval
  ii_category :: jsval
  ii_location :: jsval
  ii_notes :: jsval
  ii_sequence_order :: int

text \<open>
  A row of \<open>schedule_items\<close>, as returned by the gateway and held in \<open>scheduleItems\<close>.
  The columns \<open>crew_needed\<close>, \<open>equipment_needed\<close> and \<open>is_milestone\<close> are never read or
  written by the component and are left out.
\<close>

record schedule_item =
  item_id :: string
  item_production_id :: string
  item_title :: jsval
  item_description :: jsval
  item_start_time :: jsval
  item_end_time :: jsval
  item_category :: jsval
  item_location :: jsval
  item_notes :: jsval
  item_sequence_order :: int

record new_item_form =
  f_title :: string
  f_description :: string
  f_start_time :: string
  f_end_time :: string
  f_category :: string
  f_location :: string
  f_notes :: string

definition blank_form :: new_item_form where
  "blank_form = \<lparr> f_title = [], f_description = [], f_start_time = [], f_end_time = [],
                   f_category = ''general'', f_location = [], f_notes = [] \<rparr>"

datatype item_request =
    ItemsInsert "item_insert list"
  | ItemDelete string
  | ItemsDeleteByProduction string

record schedule_world =
  scheduleItems :: "schedule_item list"
  newItem :: new_item_form
  showAddForm :: bool
  items_table :: "schedule_item list"
  items_next_id :: nat
  item_requests :: "item_request list"
  item_effects :: "effect list"

text \<open>
  Modelled from the spec: the gateway's insert on \<open>schedule_items\<close> (see the looks
  gallery above). The rows are stored in the order given, each with a fresh identity, and
  returned in that order.
\<close>

definition store_item :: "nat \<Rightarrow> item_insert \<Rightarrow> schedule_item" where
  "store_item k p =
     \<lparr> item_id = show_nat k,
       item_production_id = ii_production_id p,
       item_title = to_json (ii_title p),
       item_description = to_json (ii_description p),
       item_start_time = to_json (ii_start_time p),
       item_end_time = to_json (ii_end_time p),
       item_category = to_json (ii_category p),
       item_location = to_json (ii_location p),
       item_notes = to_json (ii_notes p),
       item_sequence_order = ii_sequence_order p \<rparr>"

definition store_items :: "nat \<Rightarrow> item_insert list \<Rightarrow> schedule_item list" where
  "store_items k ps = map (\<lambda>(j, p). store_item j p) (enumerate k ps)"

text \<open>
  The insert both handlers end with: the request is issued; on an error the message is
  logged and nothing else changes; otherwise \<open>after\<close> installs the returned rows in the
  component's state.
\<close>

definition insert_items ::
  "bool \<Rightarrow> string \<Rightarrow> item_insert list \<Rightarrow> (schedule_item list \<Rightarrow> schedule_world \<Rightarrow> schedule_world)
     \<Rightarrow> schedule_world \<Rightarrow> schedule_world" where
  "insert_items ok msg ps after w =
     (let w1 = w\<lparr> item_requests := item_requests w @ [ItemsInsert ps] \<rparr>
      in if \<not> ok
         then w1\<lparr> item_effects := item_effects w1 @ [ConsoleError msg] \<rparr>
         else
           let data = store_items (items_next_id w1) ps
           in after data (w1\<lparr> items_table := items_table w1 @ data,
                               items_next_id := items_next_id w1 + length ps \<rparr>))"

subsection \<open>addScheduleItem\<close>

definition or_null :: "string \<Rightarrow> jsval" where
  "or_null s = (if s = [] then Null else JStr s)"

definition addScheduleItem :: "bool \<Rightarrow> string \<Rightarrow> schedule_world \<Rightarrow> schedule_world" where
  "addScheduleItem ok pid w =
     (if trim (f_title (newItem w)) = [] \<or> f_start_time (newItem w) = [] then w
      else
        insert_items ok ''Error adding schedule item:''
          [\<lparr> ii_production_id = pid,
             ii_title = JStr (trim (f_title (newItem w))),
             ii_description = JStr (trim (f_description (newItem w))),
             ii_start_time = JStr (f_start_time (newItem w)),
             ii_end_time = or_null (f_end_time (newItem w)),
             ii_category = JStr (f_category (newItem w)),
             ii_location = or_null (trim (f_location (newItem w))),
             ii_notes = or_null (trim (f_notes (newItem w))),
             ii_sequence_order = int (length (scheduleItems w)) \<rparr>]
          (\<lambda>data v. v\<lparr> scheduleItems := scheduleItems w @ data,
                        newItem := blank_form,
                        showAddForm := False \<rparr>)
          w)"

subsection \<open>deleteScheduleItem\<close>

definition deleteScheduleItem :: "bool \<Rightarrow> string \<Rightarrow> schedule_world \<Rightarrow> schedule_world" where
  "deleteScheduleItem ok itemId w =
     (let w1 = w\<lparr> item_requests := item_requests w @ [ItemDelete itemId] \<rparr>
      in if \<not> ok
         then w1\<lparr> item_effects := item_effects w1 @ [ConsoleError ''Error deleting schedule item:''] \<rparr>
         else w1\<lparr> items_table := filter (\<lambda>r. item_id r \<noteq> itemId) (items_table w1),
                   scheduleItems := filter (\<lambda>item. item_id item \<noteq> itemId) (scheduleItems w) \<rparr>)"

subsection \<open>applyTemplate\<close>

definition itemsToInsert :: "string \<Rightarrow> blueprint list \<Rightarrow> item_insert list" where
  "itemsToInsert pid templateData =
     map (\<lambda>(index, item).
            \<lparr> ii_production_id = pid,
              ii_title = bp_title item,
              ii_description = js_or (bp_description item) (JStr []),
              ii_start_time = bp_start_time item,
              ii_end_time = js_or (bp_end_time item) Null,
              ii_category = js_or (bp_category item) (JStr ''general''),
              ii_location = js_or (bp_location item) Null,
              ii_notes = js_or (bp_notes item) Null,
              ii_sequence_order = int index \<rparr>)
         (enumerate 0 templateData)"

text \<open>
  The result of the awaited delete is not bound to anything: whether it failed is not
  looked at, and the insert follows in both cases.
\<close>

definition clear_schedule :: "bool \<Rightarrow> string \<Rightarrow> schedule_world \<Rightarrow> schedule_world" where
  "clear_schedule ok pid w =
     w\<lparr> item_requests := item_requests w @ [ItemsDeleteByProduction pid],
        items_table := (if ok then filter (\<lambda>r. item_production_id r \<noteq> pid) (items_table w)
                        else items_table w) \<rparr>"

definition confirm_replace :: string where
  "confirm_replace = ''This will replace your current schedule. Continue?''"

definition applyTemplate ::
  "bool \<Rightarrow> bool \<Rightarrow> bool \<Rightarrow> string \<Rightarrow> blueprint list \<Rightarrow> schedule_world \<Rightarrow> schedule_world" where
  "applyTemplate confirmed delete_ok insert_ok pid templateData w =
     (let expand = insert_items insert_ok ''Error applying template:''
                     (itemsToInsert pid templateData)
                     (\<lambda>data v. v\<lparr> scheduleItems := data \<rparr>)
      in if length (scheduleItems w) > 0 then
           let w1 = w\<lparr> item_effects := item_effects w @ [Confirm confirm_replace] \<rparr>
           in if \<not> confirmed then w1
              else expand (clear_schedule delete_ok pid w1)
         else expand w)"


subsection \<open>calculateDuration\<close>

text \<open>
  \<open>calculateDuration\<close> computes with doubles. A finite double is kept as a pair
  \<open>Double m e\<close>, standing for the number \<open>m * 2 ^ e\<close>. Dividing one integer by another
  is IEEE 754 division: the exact quotient rounded to 53 significant bits, ties to the even
  neighbour. \<open>shift n b\<close> is the power of two that brings \<open>n / b\<close> into
  \<open>2 ^ 52 \<le> \<dots> < 2 ^ 53\<close>, found from the bit lengths of the operands, and the rounded
  quotient is computed on integers; the divisor is positive (the code divides by the
  constants \<open>1000 * 60\<close> and \<open>1000 * 60 * 60\<close>). The limits of the exponent range are
  not modelled (the operands here are whole milliseconds within a day), nor is the switch
  of \<open>toFixed\<close> to exponent notation from \<open>10 ^ 21\<close> on. \<open>dbl_less_int x k\<close> is \<open>x < k\<close>
  for an integer \<open>k\<close>; \<open>scaled_round c x\<close> is the integer nearest to \<open>c * x\<close>, the
  larger one at a tie: \<open>Math.round\<close> is the case \<open>c = 1\<close>, and \<open>toFixed(1)\<close> takes its
  digits from the case \<open>c = 10\<close>.
\<close>

function bitlen :: "int \<Rightarrow> nat" where
  "bitlen n = (if n \<le> 0 then 0 else Suc (bitlen (n div 2)))"
  by pat_completeness auto
termination
  by (relation "measure nat") auto

declare bitlen.simps [simp del]

datatype double = Double int int

fun dbl_val :: "double \<Rightarrow> rat" where
  "dbl_val (Double m e) = of_int m * 2 powi e"

definition round_half_even :: "int \<Rightarrow> int \<Rightarrow> int" where
  "round_half_even p q =
     (if 2 * (p mod q) < q then p div q
      else if q < 2 * (p mod q) then p div q + 1
      else if even (p div q) then p div q else p div q + 1)"

definition shift0 :: "int \<Rightarrow> int \<Rightarrow> int" where
  "shift0 n b = 53 + int (bitlen b) - int (bitlen n)"

definition shift :: "int \<Rightarrow> int \<Rightarrow> int" where
  "shift n b =
     (if 2 ^ 53 * (b * 2 ^ nat (- shift0 n b)) \<le> n * 2 ^ nat (shift0 n b)
      then shift0 n b - 1 else shift0 n b)"

definition fl_pos :: "int \<Rightarrow> int \<Rightarrow> double" where
  "fl_pos n b =
     Double (round_half_even (n * 2 ^ nat (shift n b)) (b * 2 ^ nat (- shift n b))) (- shift n b)"

fun dbl_neg :: "double \<Rightarrow> double" where
  "dbl_neg (Double m e) = Double (- m) e"

definition fl_div :: "int \<Rightarrow> int \<Rightarrow> double" where
  "fl_div a b =
     (if a = 0 then Double 0 0
      else if 0 < a then fl_pos a b
      else dbl_neg (fl_pos (- a) b))"

fun dbl_less_int :: "double \<Rightarrow> int \<Rightarrow> bool" where
  "dbl_less_int (Double m e) k = (if 0 \<le> e then m * 2 ^ nat e < k else m < k * 2 ^ nat (- e))"

fun scaled_round :: "int \<Rightarrow> double \<Rightarrow> int" where
  "scaled_round c (Double m e) =
     (if 0 \<le> e then c * m * 2 ^ nat e
      else (2 * c * m + 2 ^ nat (- e)) div 2 ^ nat (1 - e))"


text \<open>
  \<open>new Date(`2000-01-01T${time}`)\<close> reads a local time of day in one of the forms
  \<open>HH:mm\<close>, \<open>HH:mm:ss\<close> and \<open>HH:mm:ss.sss\<close>, hours up to 23 (or \<open>24:00:00.000\<close>);
  these are the forms a time input and a time column produce. Any other string is an
  invalid date here, whose time value is \<open>NaN\<close> (\<open>None\<close>). That is an approximation:
  engines also read fractions of other lengths and a zone suffix, which the model does not
  cover; the properties below speak only of strings in the three forms.
  \<open>getTime\<close> is the time value of the local midnight of that day, a parameter, plus the
  milliseconds of the time of day.
\<close>

definition digit_val :: "char \<Rightarrow> nat option" where
  "digit_val c =
     map_of [(CHR ''0'', 0), (CHR ''1'', 1), (CHR ''2'', 2), (CHR ''3'', 3), (CHR ''4'', 4),
             (CHR ''5'', 5), (CHR ''6'', 6), (CHR ''7'', 7), (CHR ''8'', 8), (CHR ''9'', 9)] c"

definition digits_val :: "string \<Rightarrow> nat option" where
  "digits_val ds = fold (\<lambda>c acc. case (acc, digit_val c) of
                                    (Some a, Some d) \<Rightarrow> Some (10 * a + d)
                                  | _ \<Rightarrow> None) ds (Some 0)"

definition time_of_day :: "nat option \<Rightarrow> nat option \<Rightarrow> nat option \<Rightarrow> nat option \<Rightarrow> int option" where
  "time_of_day hh mm ss ms =
     (case (hh, mm, ss, ms) of
        (Some h, Some m, Some s, Some f) \<Rightarrow>
          if (h \<le> 23 \<and> m \<le> 59 \<and> s \<le> 59) \<or> (h = 24 \<and> m = 0 \<and> s = 0 \<and> f = 0)
          then Some (int (((h * 60 + m) * 60 + s) * 1000 + f))
          else None
      | _ \<Rightarrow> None)"

definition parse_time :: "string \<Rightarrow> int option" where
  "parse_time t =
     (if length t = 5 \<and> t ! 2 = CHR '':''
      then time_of_day (digits_val (take 2 t)) (digits_val (drop 3 t)) (Some 0) (Some 0)
      else if length t = 8 \<and> t ! 2 = CHR '':'' \<and> t ! 5 = CHR '':''
      then time_of_day (digits_val (take 2 t)) (digits_val (take 2 (drop 3 t)))
             (digits_val (drop 6 t)) (Some 0)
      else if length t = 12 \<and> t ! 2 = CHR '':'' \<and> t ! 5 = CHR '':'' \<and> t ! 8 = CHR ''.''
      then time_of_day (digits_val (take 2 t)) (digits_val (take 2 (drop 3 t)))
             (digits_val (take 2 (drop 6 t))) (digits_val (drop 9 t))
      else None)"

definition getTime :: "int \<Rightarrow> string \<Rightarrow> int option" where
  "getTime midnight t = map_option (\<lambda>ms. midnight + ms) (parse_time t)"

definition Math_round :: "double \<Rightarrow> int" where
  "Math_round x = scaled_round 1 x"

definition fixed1 :: "int \<Rightarrow> string" where
  "fixed1 n = show_nat (nat n div 10) @ ''.'' @ show_nat (nat n mod 10)"

definition toFixed1 :: "double \<Rightarrow> string" where
  "toFixed1 x =
     (if dbl_less_int x 0 then CHR ''-'' # fixed1 (scaled_round 10 (dbl_neg x))
      else fixed1 (scaled_round 10 x))"

definition diffHours :: "int \<Rightarrow> double" where
  "diffHours diffMs = fl_div diffMs (1000 * 60 * 60)"

definition diffMinutes :: "int \<Rightarrow> int" where
  "diffMinutes diffMs = Math_round (fl_div diffMs (1000 * 60))"

definition calculateDuration :: "int \<Rightarrow> string \<Rightarrow> string option \<Rightarrow> string" where
  "calculateDuration midnight startTime endTime =
     (case endTime of
        None \<Rightarrow> []
      | Some e \<Rightarrow>
          if e = [] then []
          else
            (case (getTime midnight startTime, getTime midnight e) of
               (Some start, Some end') \<Rightarrow>
                 if dbl_less_int (diffHours (end' - start)) 1
                 then show_int (diffMinutes (end' - start)) @ ''min''
                 else toFixed1 (diffHours (end' - start)) @ ''h''
             | _ \<Rightarrow> ''NaNh''))"

text \<open>Quantities the proofs below speak of: the scaled quotient, and a bound on the rounding error.\<close>

definition ratio :: "int \<Rightarrow> int \<Rightarrow> int \<Rightarrow> rat" where
  "ratio n b s = of_int n * 2 powi s / of_int b"

definition ulp_bound :: rat where
  "ulp_bound = 1 / 2 ^ 40"


section \<open>Call sheet (CallSheetGenerator)\<close>

record production =
  prod_id :: string
  prod_name :: string
  prod_shoot_date :: "string option"
  prod_call_time :: "string option"
  prod_location_address :: "string option"
  prod_location_details :: "string option"
  prod_client_name :: "string option"
  prod_producer_name :: "string option"
  prod_producer_phone :: "string option"
  prod_weather_backup :: "string option"
  prod_parking_info :: "string option"
  prod_special_notes :: "string option"
  prod_created_at :: string

record crew_member =
  crew_id :: string
  crew_name :: string
  crew_role :: string
  crew_call_time :: "string option"
  crew_phone :: "string option"
  crew_email :: "string option"
  crew_notes :: "string option"

record sheet_look =
  sl_id :: string
  sl_name :: string
  sl_sequence_order :: int

text \<open>
  A nullable string is truthy when it is neither null nor empty (\<open>updateProduction\<close>
  stores the empty string when an input is cleared). \<open>v || d\<close> and \<open>v && element\<close>
  test exactly this.
\<close>

definition present :: "string option \<Rightarrow> bool" where
  "present v = (case v of None \<Rightarrow> False | Some s \<Rightarrow> s \<noteq> [])"

text \<open>The same test written out, for the statements about the sheet.\<close>

abbreviation absent :: "string option \<Rightarrow> bool" where
  "absent v \<equiv> v = None \<or> v = Some []"

definition or_text :: "string option \<Rightarrow> string \<Rightarrow> string" where
  "or_text v d = (case v of None \<Rightarrow> d | Some s \<Rightarrow> if s = [] then d else s)"

text \<open>
  The preview is the element tree under \<open>callSheetRef\<close>. A node keeps its children as
  the JSX lists them: literal text and the value of each \<open>{...}\<close> expression are
  separate fragments. \<open>Labelled\<close> is a line that starts with a \<open><strong>\<close> label.
\<close>

datatype node =
    H1 string
  | H2 string
  | H3 string
  | P "string list"
  | Labelled string "string list"
  | TableHead "string list"
  | TableRow "string list"
  | ListItem "string list"

datatype section_kind =
    HeaderSec | InfoSec | LocationSec | CrewSec | LooksSec | EmergencySec | NotesSec

datatype sheet_section = Section section_kind "node list"

fun kind_of :: "sheet_section \<Rightarrow> section_kind" where
  "kind_of (Section k ns) = k"

fun nodes_of :: "sheet_section \<Rightarrow> node list" where
  "nodes_of (Section k ns) = ns"

fun texts :: "node \<Rightarrow> string list" where
  "texts (H1 t) = [t]"
| "texts (H2 t) = [t]"
| "texts (H3 t) = [t]"
| "texts (P ts) = ts"
| "texts (Labelled l ts) = l # ts"
| "texts (TableHead ts) = ts"
| "texts (TableRow ts) = ts"
| "texts (ListItem ts) = ts"

definition sheet_texts :: "sheet_section list \<Rightarrow> string list" where
  "sheet_texts doc = concat (map texts (concat (map nodes_of doc)))"

definition section_nodes :: "section_kind \<Rightarrow> sheet_section list \<Rightarrow> node list" where
  "section_nodes k doc = concat (map nodes_of (filter (\<lambda>s. kind_of s = k) doc))"

text \<open>
  \<open>toLocaleDateString\<close> depends on the browser's locale; it is a parameter. The preview
  is rendered only when a production is loaded (the component returns another view
  otherwise). The component's \<open>looks\<close> is called \<open>sheet_looks\<close> here.
\<close>

definition callSheet ::
  "(string \<Rightarrow> string) \<Rightarrow> production \<Rightarrow> crew_member list \<Rightarrow> sheet_look list \<Rightarrow> sheet_section list" where
  "callSheet toLocaleDateString production crew sheet_looks =
     [ Section HeaderSec
         ([H1 ''CALL SHEET'', H2 (prod_name production)]
          @ (if present (prod_client_name production)
             then [P [''Client: '', the (prod_client_name production)]] else [])),
       Section InfoSec
         [ Labelled ''Date:'' [if present (prod_shoot_date production)
                            then toLocaleDateString (the (prod_shoot_date production))
                            else ''TBD''],
           Labelled ''Call Time:'' [or_text (prod_call_time production) ''TBD''],
           Labelled ''Producer:'' [or_text (prod_producer_name production) ''TBD''],
           Labelled ''Phone:'' [or_text (prod_producer_phone production) ''TBD''] ],
       Section LocationSec
         ([H3 ''LOCATION'',
           Labelled ''Address:'' [or_text (prod_location_address production) ''TBD'']]
          @ (if present (prod_location_details production)
             then [Labelled ''Details:'' [the (prod_location_details production)]] else [])
          @ (if present (prod_parking_info production)
             then [Labelled ''Parking:'' [the (prod_parking_info production)]] else [])
          @ (if present (prod_weather_backup production)
             then [Labelled ''Weather Backup:'' [the (prod_weather_backup production)]] else [])) ]
     @ (if length crew > 0
        then [Section CrewSec
                (H3 ''CREW'' # TableHead [''Name'', ''Role'', ''Call Time'', ''Phone'']
                 # map (\<lambda>member. TableRow [crew_name member, crew_role member,
                                              or_text (crew_call_time member) ''-'',
                                              or_text (crew_phone member) ''-'']) crew)]
        else [])
     @ (if length sheet_looks > 0
        then [Section LooksSec
                (H3 ''LOOKS''
                 # map (\<lambda>(index, look). ListItem [''Look '', show_nat (index + 1), '': '', sl_name look])
                     (enumerate 0 sheet_looks))]
        else [])
     @ [ Section EmergencySec
           [ H3 ''EMERGENCY CONTACTS'',
             Labelled ''Producer:'' [or_text (prod_producer_name production) ''TBD'', '' - '',
                                  or_text (prod_producer_phone production) ''TBD''],
             Labelled ''Emergency Services:'' [''911''] ] ]
     @ (if present (prod_special_notes production)
        then [Section NotesSec [H3 ''SPECIAL NOTES'', P [the (prod_special_notes production)]]]
        else [])"

subsection \<open>generatePDF\<close>

text \<open>
  The export rasterizes the preview (\<open>html2canvas\<close>, which yields a canvas or throws)
  and lays the image out on A4 pages with \<open>jsPDF\<close>. A document is the list of its pages,
  a page the list of the vertical positions at which the image was drawn on it; a new
  document has one empty page. Numbers are exact rationals: the rounding of doubles is not
  modelled. A canvas of width 0 makes the quotient \<open>Infinity\<close> (or \<open>NaN\<close> when the
  height is 0 as well); the first \<open>addImage\<close> rejects such a height by throwing, so the
  handler ends in its \<open>catch\<close> like a failed rasterization: it logs, alerts and saves
  nothing. The handler's result is optional (\<open>None\<close> would be a run that does not
  return); every case below returns. Console messages are given without their leading
  pictograph.
\<close>

datatype jsnum = Finite rat | PosInfinity | NaN

record canvas =
  width :: nat
  height :: nat

definition imgWidth :: rat where
  "imgWidth = 210"

definition pageHeight :: rat where
  "pageHeight = 295"

definition imgHeight :: "canvas \<Rightarrow> jsnum" where
  "imgHeight c =
     (if width c = 0 then (if height c = 0 then NaN else PosInfinity)
      else Finite ((of_nat (height c) * imgWidth) / of_nat (width c)))"

type_synonym pdf = "rat list list"

definition addImage :: "rat \<Rightarrow> pdf \<Rightarrow> pdf" where
  "addImage position doc = butlast doc @ [last doc @ [position]]"

definition addPage :: "pdf \<Rightarrow> pdf" where
  "addPage doc = doc @ [[]]"

function page_loop :: "rat \<Rightarrow> rat \<Rightarrow> pdf \<Rightarrow> pdf" where
  "page_loop H heightLeft doc =
     (if heightLeft \<ge> 0
      then page_loop H (heightLeft - pageHeight) (addImage (heightLeft - H) (addPage doc))
      else doc)"
  by pat_completeness auto
termination
  by (relation "measure (\<lambda>(H, heightLeft, doc). nat (\<lfloor>heightLeft\<rfloor> + 1))")
     (auto simp add: pageHeight_def)

declare page_loop.simps [simp del]

record sheet_world =
  generating :: bool
  saved :: "(string \<times> pdf) list"
  sheet_effects :: "effect list"

definition save_pdf :: "production \<Rightarrow> pdf \<Rightarrow> sheet_world \<Rightarrow> sheet_world" where
  "save_pdf production doc w =
     w\<lparr> generating := False,
        saved := saved w @ [(prod_name production @ '' - Call Sheet.pdf'', doc)],
        sheet_effects := sheet_effects w @ [ConsoleLog ''PDF generated successfully''] \<rparr>"

definition export_failed :: "sheet_world \<Rightarrow> sheet_world" where
  "export_failed w =
     w\<lparr> generating := False,
        sheet_effects := sheet_effects w @
          [ConsoleError ''Error generating PDF:'', Alert ''Failed to generate PDF''] \<rparr>"

definition generatePDF ::
  "bool \<Rightarrow> production option \<Rightarrow> canvas option \<Rightarrow> sheet_world \<Rightarrow> sheet_world option" where
  "generatePDF callSheetRef production rasterized w =
     (case (callSheetRef, production) of
        (True, Some p) \<Rightarrow>
          (case rasterized of
             None \<Rightarrow> Some (export_failed w)
           | Some c \<Rightarrow>
               (case imgHeight c of
                  Finite H \<Rightarrow>
                    Some (save_pdf p (page_loop H (H - pageHeight) (addImage 0 [[]])) w)
                | PosInfinity \<Rightarrow> Some (export_failed w)
                | NaN \<Rightarrow> Some (export_failed w)))
      | _ \<Rightarrow> Some w)"

section \<open>Sample states\<close>

definition sample_look :: "string \<Rightarrow> string \<Rightarrow> int \<Rightarrow> look" where
  "sample_look i n k =
     \<lparr> look_id = i, look_production_id = ''p1'', look_name = n, look_description = [],
       look_image_url = None, look_sequence_order = k, look_styling_notes = [],
       look_created_at = ''2024-05-01T10:00:00Z'' \<rparr>"

definition gallery3 :: looks_world where
  "gallery3 =
     \<lparr> looks = [sample_look ''a'' ''Casual Denim'' 0, sample_look ''b'' ''Evening Glamour'' 1,
                sample_look ''c'' ''Street'' 2],
       newLookName = [],
       looks_table = [sample_look ''a'' ''Casual Denim'' 0, sample_look ''b'' ''Evening Glamour'' 1,
                      sample_look ''c'' ''Street'' 2],
       looks_next_id = 3,
       look_requests = [],
       look_effects = [] \<rparr>"

definition sample_blueprint :: "string \<Rightarrow> string \<Rightarrow> blueprint" where
  "sample_blueprint t s =
     \<lparr> bp_title = JStr t, bp_description = Undefined, bp_start_time = JStr s,
       bp_end_time = Undefined, bp_category = Undefined, bp_location = Undefined,
       bp_notes = Undefined \<rparr>"

definition half_day :: "blueprint list" where
  "half_day = [sample_blueprint ''Load in'' ''08:00'', sample_blueprint ''Shoot'' ''09:00'']"

definition fresh_schedule :: schedule_world where
  "fresh_schedule =
     \<lparr> scheduleItems = [], newItem = blank_form, showAddForm = False, items_table = [],
       items_next_id = 0, item_requests = [], item_effects = [] \<rparr>"

text \<open>A template of one blueprint that has a description, an end time and a category.\<close>

definition wrap_up :: "blueprint list" where
  "wrap_up =
     [\<lparr> bp_title = JStr ''Wrap'', bp_description = JStr ''Strike the set'',
        bp_start_time = JStr ''18:00'', bp_end_time = JStr ''19:00'',
        bp_category = JStr ''wrap'', bp_location = Undefined, bp_notes = Null \<rparr>]"

definition busy_schedule :: schedule_world where
  "busy_schedule = applyTemplate False True True ''p1'' half_day fresh_schedule"

definition typed_form :: new_item_form where
  "typed_form = \<lparr> f_title = ''  Wrap '', f_description = [], f_start_time = ''17:00'',
                   f_end_time = [], f_category = ''wrap'', f_location = [], f_notes = [] \<rparr>"

text \<open>
  The schedule after the half-day template was applied to an empty schedule, its first
  item was deleted and the form was filled in.
\<close>

definition after_delete :: schedule_world where
  "after_delete = (deleteScheduleItem True ''0'' busy_schedule)\<lparr> newItem := typed_form \<rparr>"

definition bare_production :: production where
  "bare_production =
     \<lparr> prod_id = ''p1'', prod_name = ''Spring Lookbook'', prod_shoot_date = None,
       prod_call_time = None, prod_location_address = None, prod_location_details = None,
       prod_client_name = None, prod_producer_name = None, prod_producer_phone = None,
       prod_weather_backup = None, prod_parking_info = None, prod_special_notes = None,
       prod_created_at = ''2024-05-01T10:00:00Z'' \<rparr>"

text \<open>A production with its date, call time, producer and address filled in, and nothing else.\<close>

definition planned_production :: production where
  "planned_production =
     bare_production\<lparr> prod_shoot_date := Some ''2024-06-01'', prod_call_time := Some ''07:30'',
                      prod_location_address := Some ''12 Dock Road'',
                      prod_producer_name := Some ''Kim'', prod_producer_phone := Some ''555-0100'' \<rparr>"

definition stylist :: crew_member where
  "stylist = \<lparr> crew_id = ''c1'', crew_name = ''Ana'', crew_role = ''Stylist'',
               crew_call_time = None, crew_phone = None, crew_email = None, crew_notes = None \<rparr>"

text \<open>A crew member with a phone number and no call time.\<close>

definition assistant :: crew_member where
  "assistant = \<lparr> crew_id = ''c2'', crew_name = ''Bo'', crew_role = ''Assistant'',
                 crew_call_time = None, crew_phone = Some ''555-0101'', crew_email = None,
                 crew_notes = None \<rparr>"

definition idle_sheet :: sheet_world where
  "idle_sheet = \<lparr> generating = False, saved = [], sheet_effects = [] \<rparr>"

text \<open>A canvas whose image is exactly one page band high: \<open>590 * 210 / 420 = 295\<close>.\<close>

definition one_band_canvas :: canvas where
  "one_band_canvas = \<lparr> width = 420, height = 590 \<rparr>"

section \<open>Properties of the looks gallery\<close>

lemma moveUp_in_range:
  assumes "0 < i" "i < length (looks w)"
  shows "\<exists>w'. moveUp ok1 ok2 (int i) w = Returned w'
     \<and> length (looks w') = length (looks w)
     \<and> looks w' ! i = (looks w ! (i - 1))\<lparr>look_sequence_order := int i\<rparr>
     \<and> looks w' ! (i - 1) = (looks w ! i)\<lparr>look_sequence_order := int i - 1\<rparr>
     \<and> (\<forall>j < length (looks w). j \<noteq> i \<and> j \<noteq> i - 1 \<longrightarrow> looks w' ! j = looks w ! j)
     \<and> look_requests w' = look_requests w @
          [LookUpdateOrder (int i) (look_id (looks w ! (i - 1))),
           LookUpdateOrder (int i - 1) (look_id (looks w ! i))]
     \<and> look_effects w' = look_effects w
     \<and> (ok1 \<and> ok2 \<longrightarrow> looks_table w' =
           set_order (int i - 1) (look_id (looks w ! i))
             (set_order (int i) (look_id (looks w ! (i - 1))) (looks_table w)))"
  using assms
  by (auto simp add: moveUp_def Let_def update_order_def nth_list_update of_nat_diff)

lemma moveDown_in_range:
  assumes "i + 1 < length (looks w)"
  shows "\<exists>w'. moveDown ok1 ok2 (int i) w = Returned w'
     \<and> length (looks w') = length (looks w)
     \<and> looks w' ! i = (looks w ! (i + 1))\<lparr>look_sequence_order := int i\<rparr>
     \<and> looks w' ! (i + 1) = (looks w ! i)\<lparr>look_sequence_order := int i + 1\<rparr>
     \<and> (\<forall>j < length (looks w). j \<noteq> i \<and> j \<noteq> i + 1 \<longrightarrow> looks w' ! j = looks w ! j)
     \<and> look_requests w' = look_requests w @
          [LookUpdateOrder (int i) (look_id (looks w ! (i + 1))),
           LookUpdateOrder (int i + 1) (look_id (looks w ! i))]
     \<and> look_effects w' = look_effects w
     \<and> (ok1 \<and> ok2 \<longrightarrow> looks_table w' =
           set_order (int i + 1) (look_id (looks w ! i))
             (set_order (int i) (look_id (looks w ! (i + 1))) (looks_table w)))"
  using assms
  by (auto simp add: moveDown_def Let_def update_order_def nth_list_update)

text \<open>
  Claim C2. In a list of at least two looks, \<open>moveUp\<close> at a position \<open>i\<close> with
  \<open>0 < i \<le> N - 1\<close> returns a list of the same length in which the look that was at
  \<open>i - 1\<close> is at \<open>i\<close> and the look that was at \<open>i\<close> is at \<open>i - 1\<close>, each with its
  \<open>sequence_order\<close> set to its new position, and every other position holds what it held.
  Exactly two updates are issued, one per moved look, carrying the new positions; when both
  succeed the remote collection has these two reassignments applied. \<open>moveDown\<close> at
  \<open>i < N - 1\<close> does the same with \<open>i\<close> and \<open>i + 1\<close>.
\<close>

theorem move_swaps_neighbours:
  assumes "2 \<le> length (looks w)"
  shows "(0 < i \<and> i \<le> length (looks w) - 1 \<longrightarrow>
           (\<exists>w'. moveUp ok1 ok2 (int i) w = Returned w'
              \<and> length (looks w') = length (looks w)
              \<and> looks w' ! i = (looks w ! (i - 1))\<lparr>look_sequence_order := int i\<rparr>
              \<and> looks w' ! (i - 1) = (looks w ! i)\<lparr>look_sequence_order := int i - 1\<rparr>
              \<and> (\<forall>j < length (looks w). j \<noteq> i \<and> j \<noteq> i - 1 \<longrightarrow> looks w' ! j = looks w ! j)
              \<and> look_requests w' = look_requests w @
                   [LookUpdateOrder (int i) (look_id (looks w ! (i - 1))),
                    LookUpdateOrder (int i - 1) (look_id (looks w ! i))]
              \<and> (ok1 \<and> ok2 \<longrightarrow> looks_table w' =
                    set_order (int i - 1) (look_id (looks w ! i))
                      (set_order (int i) (look_id (looks w ! (i - 1))) (looks_table w)))))
       \<and> (i < length (looks w) - 1 \<longrightarrow>
           (\<exists>w'. moveDown ok1 ok2 (int i) w = Returned w'
              \<and> length (looks w') = length (looks w)
              \<and> looks w' ! i = (looks w ! (i + 1))\<lparr>look_sequence_order := int i\<rparr>
              \<and> looks w' ! (i + 1) = (looks w ! i)\<lparr>look_sequence_order := int i + 1\<rparr>
              \<and> (\<forall>j < length (looks w). j \<noteq> i \<and> j \<noteq> i + 1 \<longrightarrow> looks w' ! j = looks w ! j)
              \<and> look_requests w' = look_requests w @
                   [LookUpdateOrder (int i) (look_id (looks w ! (i + 1))),
                    LookUpdateOrder (int i + 1) (look_id (looks w ! i))]
              \<and> (ok1 \<and> ok2 \<longrightarrow> looks_table w' =
                    set_order (int i + 1) (look_id (looks w ! i))
                      (set_order (int i) (look_id (looks w ! (i + 1))) (looks_table w)))))"
proof (intro conjI impI)
  assume "0 < i \<and> i \<le> length (looks w) - 1"
  with assms have "0 < i" "i < length (looks w)" by auto
  from moveUp_in_range [OF this, of ok1 ok2]
  show "\<exists>w'. moveUp ok1 ok2 (int i) w = Returned w'
              \<and> length (looks w') = length (looks w)
              \<and> looks w' ! i = (looks w ! (i - 1))\<lparr>look_sequence_order := int i\<rparr>
              \<and> looks w' ! (i - 1) = (looks w ! i)\<lparr>look_sequence_order := int i - 1\<rparr>
              \<and> (\<forall>j < length (looks w). j \<noteq> i \<and> j \<noteq> i - 1 \<longrightarrow> looks w' ! j = looks w ! j)
              \<and> look_requests w' = look_requests w @
                   [LookUpdateOrder (int i) (look_id (looks w ! (i - 1))),
                    LookUpdateOrder (int i - 1) (look_id (looks w ! i))]
              \<and> (ok1 \<and> ok2 \<longrightarrow> looks_table w' =
                    set_order (int i - 1) (look_id (looks w ! i))
                      (set_order (int i) (look_id (looks w ! (i - 1))) (looks_table w)))"
    by blast
next
  assume "i < length (looks w) - 1"
  then have "i + 1 < length (looks w)" by auto
  from moveDown_in_range [OF this, of ok1 ok2]
  show "\<exists>w'. moveDown ok1 ok2 (int i) w = Returned w'
              \<and> length (looks w') = length (looks w)
              \<and> looks w' ! i = (looks w ! (i + 1))\<lparr>look_sequence_order := int i\<rparr>
              \<and> looks w' ! (i + 1) = (looks w ! i)\<lparr>look_sequence_order := int i + 1\<rparr>
              \<and> (\<forall>j < length (looks w). j \<noteq> i \<and> j \<noteq> i + 1 \<longrightarrow> looks w' ! j = looks w ! j)
              \<and> look_requests w' = look_requests w @
                   [LookUpdateOrder (int i) (look_id (looks w ! (i + 1))),
                    LookUpdateOrder (int i + 1) (look_id (looks w ! i))]
              \<and> (ok1 \<and> ok2 \<longrightarrow> looks_table w' =
                    set_order (int i + 1) (look_id (looks w ! i))
                      (set_order (int i) (look_id (looks w ! (i + 1))) (looks_table w)))"
    by blast
qed

theorem move_swaps_neighbours_witness:
  "2 \<le> length (looks gallery3) \<and> 0 < (1::nat) \<and> 1 \<le> length (looks gallery3) - 1
   \<and> 1 < length (looks gallery3) - 1
   \<and> moveUp True True 1 gallery3 = Returned
       (gallery3\<lparr> looks := [sample_look ''b'' ''Evening Glamour'' 0,
                            sample_look ''a'' ''Casual Denim'' 1,
                            sample_look ''c'' ''Street'' 2],
                  look_requests := [LookUpdateOrder 1 ''a'', LookUpdateOrder 0 ''b''],
                  looks_table := [sample_look ''a'' ''Casual Denim'' 1,
                                  sample_look ''b'' ''Evening Glamour'' 0,
                                  sample_look ''c'' ''Street'' 2] \<rparr>)
   \<and> moveDown True True 1 gallery3 = Returned
       (gallery3\<lparr> looks := [sample_look ''a'' ''Casual Denim'' 0,
                            sample_look ''c'' ''Street'' 1,
                            sample_look ''b'' ''Evening Glamour'' 2],
                  look_requests := [LookUpdateOrder 1 ''c'', LookUpdateOrder 2 ''b''],
                  looks_table := [sample_look ''a'' ''Casual Denim'' 0,
                                  sample_look ''b'' ''Evening Glamour'' 2,
                                  sample_look ''c'' ''Street'' 1] \<rparr>)"
  using move_swaps_neighbours [of gallery3 1 True True]
  by (simp add: gallery3_def sample_look_def moveUp_def moveDown_def update_order_def
        set_order_def Let_def)

text \<open>
  Claim C3. \<open>moveUp\<close> at position 0 and \<open>moveDown\<close> at the last position return at their
  first line: the world they leave is the world they found, so the list, every
  \<open>sequence_order\<close>, the remote collection and the list of requests issued are unchanged.
\<close>

theorem move_at_boundary_noop:
  "moveUp ok1 ok2 0 w = Returned w
   \<and> moveDown ok1 ok2 (int (length (looks w)) - 1) w = Returned w"
  by (simp add: moveUp_def moveDown_def)


section \<open>Properties of the schedule builder\<close>

lemma length_itemsToInsert: "length (itemsToInsert pid bps) = length bps"
  by (simp add: itemsToInsert_def)

lemma length_store_items: "length (store_items k ps) = length ps"
  by (simp add: store_items_def)

lemma nth_itemsToInsert:
  "k < length bps \<Longrightarrow> itemsToInsert pid bps ! k =
      \<lparr> ii_production_id = pid,
        ii_title = bp_title (bps ! k),
        ii_description = js_or (bp_description (bps ! k)) (JStr []),
        ii_start_time = bp_start_time (bps ! k),
        ii_end_time = js_or (bp_end_time (bps ! k)) Null,
        ii_category = js_or (bp_category (bps ! k)) (JStr ''general''),
        ii_location = js_or (bp_location (bps ! k)) Null,
        ii_notes = js_or (bp_notes (bps ! k)) Null,
        ii_sequence_order = int k \<rparr>"
  by (simp add: itemsToInsert_def nth_enumerate_eq)

lemma nth_store_items:
  "j < length ps \<Longrightarrow> store_items k ps ! j = store_item (k + j) (ps ! j)"
  by (simp add: store_items_def nth_enumerate_eq)

lemma to_json_js_or:
  "b \<noteq> Undefined \<Longrightarrow> to_json (js_or a b) = (if truthy a then a else b)"
  by (cases a; cases b; simp add: js_or_def)

lemma nth_expanded:
  "k < length bps \<Longrightarrow> store_items n (itemsToInsert pid bps) ! k =
     \<lparr> item_id = show_nat (n + k),
       item_production_id = pid,
       item_title = to_json (bp_title (bps ! k)),
       item_description = (if truthy (bp_description (bps ! k)) then bp_description (bps ! k) else JStr []),
       item_start_time = to_json (bp_start_time (bps ! k)),
       item_end_time = (if truthy (bp_end_time (bps ! k)) then bp_end_time (bps ! k) else Null),
       item_category = (if truthy (bp_category (bps ! k)) then bp_category (bps ! k) else JStr ''general''),
       item_location = (if truthy (bp_location (bps ! k)) then bp_location (bps ! k) else Null),
       item_notes = (if truthy (bp_notes (bps ! k)) then bp_notes (bps ! k) else Null),
       item_sequence_order = int k \<rparr>"
  by (simp add: nth_store_items length_itemsToInsert nth_itemsToInsert store_item_def to_json_js_or)

lemma production_of_expanded:
  assumes "r \<in> set (store_items n (itemsToInsert pid bps))"
  shows "item_production_id r = pid"
proof -
  from assms obtain k where k: "k < length bps" "r = store_items n (itemsToInsert pid bps) ! k"
    by (auto simp add: in_set_conv_nth length_store_items length_itemsToInsert)
  then show ?thesis
    by (simp add: nth_expanded)
qed

lemma filter_expanded:
  "filter (\<lambda>r. item_production_id r = pid) (store_items n (itemsToInsert pid bps))
     = store_items n (itemsToInsert pid bps)"
  by (rule filter_True) (simp add: production_of_expanded)

lemma applyTemplate_empty:
  assumes "scheduleItems w = []"
  shows "applyTemplate c d True pid bps w =
     w\<lparr> item_requests := item_requests w @ [ItemsInsert (itemsToInsert pid bps)],
        items_table := items_table w @ store_items (items_next_id w) (itemsToInsert pid bps),
        items_next_id := items_next_id w + length bps,
        scheduleItems := store_items (items_next_id w) (itemsToInsert pid bps) \<rparr>"
  using assms by (simp add: applyTemplate_def insert_items_def Let_def length_itemsToInsert)

lemma applyTemplate_declined:
  "scheduleItems w \<noteq> [] \<Longrightarrow>
     applyTemplate False d i pid bps w = w\<lparr> item_effects := item_effects w @ [Confirm confirm_replace] \<rparr>"
  by (simp add: applyTemplate_def Let_def)

lemma applyTemplate_confirmed:
  "scheduleItems w \<noteq> [] \<Longrightarrow>
     applyTemplate True True True pid bps w =
       w\<lparr> item_effects := item_effects w @ [Confirm confirm_replace],
          item_requests := item_requests w @ [ItemsDeleteByProduction pid, ItemsInsert (itemsToInsert pid bps)],
          items_table := filter (\<lambda>r. item_production_id r \<noteq> pid) (items_table w)
                           @ store_items (items_next_id w) (itemsToInsert pid bps),
          items_next_id := items_next_id w + length bps,
          scheduleItems := store_items (items_next_id w) (itemsToInsert pid bps) \<rparr>"
  by (simp add: applyTemplate_def Let_def insert_items_def clear_schedule_def length_itemsToInsert)

text \<open>
  Claim C4. Applied to an empty schedule, with the insert succeeding, \<open>applyTemplate\<close>
  leaves exactly one new item per blueprint, in blueprint order: item \<open>k\<close> has sequence
  index \<open>k\<close>, the title and start time of blueprint \<open>k\<close> as they are sent, and for each
  optional field the blueprint's value when it has one, otherwise the default (the empty
  string for the description, \<open>general\<close> for the category, null for end time, location
  and notes). The remote collection gains these items and nothing else.
\<close>

theorem applyTemplate_on_empty_schedule:
  assumes "scheduleItems w = []"
  shows "length (scheduleItems (applyTemplate c d True pid bps w)) = length bps
    \<and> (\<forall>k < length bps.
         item_sequence_order (scheduleItems (applyTemplate c d True pid bps w) ! k) = int k
       \<and> item_title (scheduleItems (applyTemplate c d True pid bps w) ! k) = to_json (bp_title (bps ! k))
       \<and> item_start_time (scheduleItems (applyTemplate c d True pid bps w) ! k)
            = to_json (bp_start_time (bps ! k))
       \<and> item_description (scheduleItems (applyTemplate c d True pid bps w) ! k)
            = (if truthy (bp_description (bps ! k)) then bp_description (bps ! k) else JStr [])
       \<and> item_end_time (scheduleItems (applyTemplate c d True pid bps w) ! k)
            = (if truthy (bp_end_time (bps ! k)) then bp_end_time (bps ! k) else Null)
       \<and> item_category (scheduleItems (applyTemplate c d True pid bps w) ! k)
            = (if truthy (bp_category (bps ! k)) then bp_category (bps ! k) else JStr ''general'')
       \<and> item_location (scheduleItems (applyTemplate c d True pid bps w) ! k)
            = (if truthy (bp_location (bps ! k)) then bp_location (bps ! k) else Null)
       \<and> item_notes (scheduleItems (applyTemplate c d True pid bps w) ! k)
            = (if truthy (bp_notes (bps ! k)) then bp_notes (bps ! k) else Null)
       \<and> item_production_id (scheduleItems (applyTemplate c d True pid bps w) ! k) = pid)
    \<and> items_table (applyTemplate c d True pid bps w)
         = items_table w @ scheduleItems (applyTemplate c d True pid bps w)"
  using assms
  by (simp add: applyTemplate_empty length_store_items length_itemsToInsert nth_expanded)


lemma busy_schedule_value:
  "busy_schedule =
     \<lparr> scheduleItems = store_items 0 (itemsToInsert ''p1'' half_day),
       newItem = blank_form, showAddForm = False,
       items_table = store_items 0 (itemsToInsert ''p1'' half_day),
       items_next_id = 2,
       item_requests = [ItemsInsert (itemsToInsert ''p1'' half_day)],
       item_effects = [] \<rparr>"
  by (simp add: busy_schedule_def applyTemplate_def insert_items_def Let_def fresh_schedule_def
        length_itemsToInsert half_day_def)

lemma half_day_items:
  "store_items n (itemsToInsert ''p1'' half_day) =
    [\<lparr>item_id = show_nat n, item_production_id = ''p1'',
        item_title = JStr ''Load in'', item_description = JStr [],
        item_start_time = JStr ''08:00'', item_end_time = Null,
        item_category = JStr ''general'', item_location = Null,
        item_notes = Null, item_sequence_order = 0\<rparr>,
     \<lparr>item_id = show_nat (Suc n), item_production_id = ''p1'',
        item_title = JStr ''Shoot'', item_description = JStr [],
        item_start_time = JStr ''09:00'', item_end_time = Null,
        item_category = JStr ''general'', item_location = Null,
        item_notes = Null, item_sequence_order = 1\<rparr>]"
  by (simp add: store_items_def itemsToInsert_def half_day_def sample_blueprint_def
        store_item_def js_or_def)

theorem applyTemplate_on_empty_schedule_witness:
  "scheduleItems fresh_schedule = []
   \<and> length (scheduleItems (applyTemplate False True True ''p1'' half_day fresh_schedule)) = 2
   \<and> scheduleItems (applyTemplate False True True ''p1'' half_day fresh_schedule) =
    [\<lparr>item_id = ''0'', item_production_id = ''p1'',
        item_title = JStr ''Load in'', item_description = JStr [],
        item_start_time = JStr ''08:00'', item_end_time = Null,
        item_category = JStr ''general'', item_location = Null,
        item_notes = Null, item_sequence_order = 0\<rparr>,
     \<lparr>item_id = ''1'', item_production_id = ''p1'',
        item_title = JStr ''Shoot'', item_description = JStr [],
        item_start_time = JStr ''09:00'', item_end_time = Null,
        item_category = JStr ''general'', item_location = Null,
        item_notes = Null, item_sequence_order = 1\<rparr>]"
proof -
  have h: "scheduleItems fresh_schedule = []"
    by (simp add: fresh_schedule_def)
  from applyTemplate_on_empty_schedule [OF h, of False True "''p1''" half_day]
  have l: "length (scheduleItems (applyTemplate False True True ''p1'' half_day fresh_schedule))
             = length half_day"
    by (rule conjunct1)
  have e: "scheduleItems (applyTemplate False True True ''p1'' half_day fresh_schedule)
             = store_items 0 (itemsToInsert ''p1'' half_day)"
    using busy_schedule_value by (simp add: busy_schedule_def)
  have l2: "length (scheduleItems (applyTemplate False True True ''p1'' half_day fresh_schedule)) = 2"
    using l by (simp add: half_day_def)
  show ?thesis
    using h l2 e
    by (simp add: half_day_items show_nat.simps digit_char_def)
qed

text \<open>
  Claim C5. With a non-empty schedule \<open>applyTemplate\<close> first shows the confirmation
  dialog, whatever happens next. If the user declines, nothing but the dialog has happened:
  the schedule in the component, the remote collection and the list of requests are as
  before. If the user accepts and both calls succeed, the delete for the production is
  issued before the insert; the component's schedule then has one item per blueprint, in
  blueprint order, item \<open>k\<close> carrying index \<open>k\<close>, the title and start time of blueprint
  \<open>k\<close> and its optional fields or their defaults; the remote collection holds exactly
  these items for the production, none of the old ones, and the rows of other productions
  are untouched.
\<close>

theorem applyTemplate_on_nonempty_schedule:
  assumes "scheduleItems w \<noteq> []"
  shows "(\<exists>rest. item_effects (applyTemplate c d i pid bps w)
                  = item_effects w @ Confirm confirm_replace # rest)
    \<and> applyTemplate False d i pid bps w
         = w\<lparr> item_effects := item_effects w @ [Confirm confirm_replace] \<rparr>
    \<and> scheduleItems (applyTemplate False d i pid bps w) = scheduleItems w
    \<and> items_table (applyTemplate False d i pid bps w) = items_table w
    \<and> item_requests (applyTemplate False d i pid bps w) = item_requests w
    \<and> item_requests (applyTemplate True True True pid bps w)
         = item_requests w @ [ItemsDeleteByProduction pid, ItemsInsert (itemsToInsert pid bps)]
    \<and> scheduleItems (applyTemplate True True True pid bps w)
         = store_items (items_next_id w) (itemsToInsert pid bps)
    \<and> filter (\<lambda>r. item_production_id r = pid) (items_table (applyTemplate True True True pid bps w))
         = store_items (items_next_id w) (itemsToInsert pid bps)
    \<and> filter (\<lambda>r. item_production_id r \<noteq> pid) (items_table (applyTemplate True True True pid bps w))
         = filter (\<lambda>r. item_production_id r \<noteq> pid) (items_table w)
    \<and> length (scheduleItems (applyTemplate True True True pid bps w)) = length bps
    \<and> (\<forall>k < length bps.
         scheduleItems (applyTemplate True True True pid bps w) ! k =
           \<lparr> item_id = show_nat (items_next_id w + k),
             item_production_id = pid,
             item_title = (if bp_title (bps ! k) = Undefined then Null else bp_title (bps ! k)),
             item_description =
               (if truthy (bp_description (bps ! k)) then bp_description (bps ! k) else JStr []),
             item_start_time =
               (if bp_start_time (bps ! k) = Undefined then Null else bp_start_time (bps ! k)),
             item_end_time =
               (if truthy (bp_end_time (bps ! k)) then bp_end_time (bps ! k) else Null),
             item_category =
               (if truthy (bp_category (bps ! k)) then bp_category (bps ! k) else JStr ''general''),
             item_location =
               (if truthy (bp_location (bps ! k)) then bp_location (bps ! k) else Null),
             item_notes = (if truthy (bp_notes (bps ! k)) then bp_notes (bps ! k) else Null),
             item_sequence_order = int k \<rparr>)
    \<and> filter (\<lambda>r. item_production_id r = pid) (items_table (applyTemplate True True True pid bps w))
         = scheduleItems (applyTemplate True True True pid bps w)"
proof -
  have a: "\<exists>rest. item_effects (applyTemplate c d i pid bps w)
                  = item_effects w @ Confirm confirm_replace # rest"
    using assms by (simp add: applyTemplate_def Let_def insert_items_def clear_schedule_def)
  have b: "filter (\<lambda>r. item_production_id r \<noteq> pid)
             (store_items (items_next_id w) (itemsToInsert pid bps)) = []"
    by (simp add: filter_empty_conv production_of_expanded)
  have j: "to_json v = (if v = Undefined then Null else v)" for v
    by (cases v) simp_all
  have s: "scheduleItems (applyTemplate True True True pid bps w)
             = store_items (items_next_id w) (itemsToInsert pid bps)"
    using assms by (simp add: applyTemplate_confirmed)
  have rows: "\<forall>k < length bps.
         scheduleItems (applyTemplate True True True pid bps w) ! k =
           \<lparr> item_id = show_nat (items_next_id w + k),
             item_production_id = pid,
             item_title = (if bp_title (bps ! k) = Undefined then Null else bp_title (bps ! k)),
             item_description =
               (if truthy (bp_description (bps ! k)) then bp_description (bps ! k) else JStr []),
             item_start_time =
               (if bp_start_time (bps ! k) = Undefined then Null else bp_start_time (bps ! k)),
             item_end_time =
               (if truthy (bp_end_time (bps ! k)) then bp_end_time (bps ! k) else Null),
             item_category =
               (if truthy (bp_category (bps ! k)) then bp_category (bps ! k) else JStr ''general''),
             item_location =
               (if truthy (bp_location (bps ! k)) then bp_location (bps ! k) else Null),
             item_notes = (if truthy (bp_notes (bps ! k)) then bp_notes (bps ! k) else Null),
             item_sequence_order = int k \<rparr>"
    unfolding s by (simp add: nth_expanded j)
  have len: "length (scheduleItems (applyTemplate True True True pid bps w)) = length bps"
    unfolding s by (simp add: length_store_items length_itemsToInsert)
  have f2: "applyTemplate False d i pid bps w
         = w\<lparr> item_effects := item_effects w @ [Confirm confirm_replace] \<rparr>"
    using assms by (rule applyTemplate_declined)
  have f3: "scheduleItems (applyTemplate False d i pid bps w) = scheduleItems w"
    and f4: "items_table (applyTemplate False d i pid bps w) = items_table w"
    and f5: "item_requests (applyTemplate False d i pid bps w) = item_requests w"
    by (simp_all add: f2)
  have f6: "item_requests (applyTemplate True True True pid bps w)
         = item_requests w @ [ItemsDeleteByProduction pid, ItemsInsert (itemsToInsert pid bps)]"
    using assms by (simp add: applyTemplate_confirmed)
  have f8: "filter (\<lambda>r. item_production_id r = pid)
              (items_table (applyTemplate True True True pid bps w))
         = store_items (items_next_id w) (itemsToInsert pid bps)"
    using assms b by (simp add: applyTemplate_confirmed filter_expanded)
  have f9: "filter (\<lambda>r. item_production_id r \<noteq> pid)
              (items_table (applyTemplate True True True pid bps w))
         = filter (\<lambda>r. item_production_id r \<noteq> pid) (items_table w)"
    using assms b by (simp add: applyTemplate_confirmed)
  have same: "filter (\<lambda>r. item_production_id r = pid)
                     (items_table (applyTemplate True True True pid bps w))
                   = scheduleItems (applyTemplate True True True pid bps w)"
    by (simp only: f8 s)
  show ?thesis
    by (intro conjI) (fact a f2 f3 f4 f5 f6 s f8 f9 len rows same)+
qed

lemma wrap_up_items:
  "store_items n (itemsToInsert ''p1'' wrap_up) =
    [\<lparr>item_id = show_nat n, item_production_id = ''p1'',
        item_title = JStr ''Wrap'', item_description = JStr ''Strike the set'',
        item_start_time = JStr ''18:00'', item_end_time = JStr ''19:00'',
        item_category = JStr ''wrap'', item_location = Null,
        item_notes = Null, item_sequence_order = 0\<rparr>]"
  by (simp add: store_items_def itemsToInsert_def wrap_up_def store_item_def js_or_def)

theorem applyTemplate_on_nonempty_schedule_witness:
  "scheduleItems busy_schedule \<noteq> []
   \<and> scheduleItems (applyTemplate False True True ''p1'' wrap_up busy_schedule)
       = scheduleItems busy_schedule
   \<and> items_table (applyTemplate False True True ''p1'' wrap_up busy_schedule)
       = items_table busy_schedule
   \<and> length (scheduleItems (applyTemplate True True True ''p1'' wrap_up busy_schedule)) = 1
   \<and> scheduleItems (applyTemplate True True True ''p1'' wrap_up busy_schedule) =
       [\<lparr>item_id = ''2'', item_production_id = ''p1'',
          item_title = JStr ''Wrap'', item_description = JStr ''Strike the set'',
          item_start_time = JStr ''18:00'', item_end_time = JStr ''19:00'',
          item_category = JStr ''wrap'', item_location = Null,
          item_notes = Null, item_sequence_order = 0\<rparr>]
   \<and> items_table (applyTemplate True True True ''p1'' wrap_up busy_schedule)
       = scheduleItems (applyTemplate True True True ''p1'' wrap_up busy_schedule)"
proof -
  have h: "scheduleItems busy_schedule \<noteq> []"
    by (simp add: busy_schedule_value half_day_items)
  note t = applyTemplate_on_nonempty_schedule [OF h, of True True True "''p1''" wrap_up]
  have d1: "scheduleItems (applyTemplate False True True ''p1'' wrap_up busy_schedule)
              = scheduleItems busy_schedule"
    using t by blast
  have d2: "items_table (applyTemplate False True True ''p1'' wrap_up busy_schedule)
              = items_table busy_schedule"
    using t by blast
  have "length (scheduleItems (applyTemplate True True True ''p1'' wrap_up busy_schedule))
          = length wrap_up"
    using t by blast
  then have l: "length (scheduleItems (applyTemplate True True True ''p1'' wrap_up busy_schedule)) = 1"
    by (simp add: wrap_up_def)
  have e: "applyTemplate True True True ''p1'' wrap_up busy_schedule =
      busy_schedule\<lparr> item_effects := item_effects busy_schedule @ [Confirm confirm_replace],
          item_requests := item_requests busy_schedule
             @ [ItemsDeleteByProduction ''p1'', ItemsInsert (itemsToInsert ''p1'' wrap_up)],
          items_table := filter (\<lambda>r. item_production_id r \<noteq> ''p1'') (items_table busy_schedule)
                           @ store_items (items_next_id busy_schedule) (itemsToInsert ''p1'' wrap_up),
          items_next_id := items_next_id busy_schedule + length wrap_up,
          scheduleItems := store_items (items_next_id busy_schedule) (itemsToInsert ''p1'' wrap_up) \<rparr>"
    using h by (rule applyTemplate_confirmed)
  have c: "scheduleItems (applyTemplate True True True ''p1'' wrap_up busy_schedule) =
       [\<lparr>item_id = ''2'', item_production_id = ''p1'',
          item_title = JStr ''Wrap'', item_description = JStr ''Strike the set'',
          item_start_time = JStr ''18:00'', item_end_time = JStr ''19:00'',
          item_category = JStr ''wrap'', item_location = Null,
          item_notes = Null, item_sequence_order = 0\<rparr>]
           \<and> items_table (applyTemplate True True True ''p1'' wrap_up busy_schedule)
             = scheduleItems (applyTemplate True True True ''p1'' wrap_up busy_schedule)"
    unfolding e
    by (simp add: busy_schedule_value half_day_items wrap_up_items show_nat.simps digit_char_def)
  show ?thesis
    using h d1 d2 l c by simp
qed

text \<open>
  Claim C10. When the title is empty after trimming, or the start time is empty,
  \<open>addScheduleItem\<close> returns at once: no request is issued and the component's state is
  what it was. When both are present and the insert succeeds, one row is added remotely
  and locally; its title is the trimmed input, and an empty end time, location or notes
  field is stored as null.
\<close>

theorem addScheduleItem_validation:
  "(trim (f_title (newItem w)) = [] \<or> f_start_time (newItem w) = [] \<longrightarrow>
       addScheduleItem ok pid w = w)
   \<and> (trim (f_title (newItem w)) \<noteq> [] \<and> f_start_time (newItem w) \<noteq> [] \<longrightarrow>
        (\<exists>row. items_table (addScheduleItem True pid w) = items_table w @ [row]
            \<and> scheduleItems (addScheduleItem True pid w) = scheduleItems w @ [row]
            \<and> item_title row = JStr (trim (f_title (newItem w)))
            \<and> (f_end_time (newItem w) = [] \<longrightarrow> item_end_time row = Null)
            \<and> (f_location (newItem w) = [] \<longrightarrow> item_location row = Null)
            \<and> (f_notes (newItem w) = [] \<longrightarrow> item_notes row = Null)))"
  by (simp add: addScheduleItem_def insert_items_def Let_def store_items_def store_item_def
        or_null_def trim_def)

lemma after_delete_value:
  "after_delete =
     \<lparr> scheduleItems = [\<lparr>item_id = ''1'', item_production_id = ''p1'',
          item_title = JStr ''Shoot'', item_description = JStr [],
          item_start_time = JStr ''09:00'', item_end_time = Null,
          item_category = JStr ''general'', item_location = Null,
          item_notes = Null, item_sequence_order = 1\<rparr>],
       newItem = typed_form, showAddForm = False,
       items_table = [\<lparr>item_id = ''1'', item_production_id = ''p1'',
          item_title = JStr ''Shoot'', item_description = JStr [],
          item_start_time = JStr ''09:00'', item_end_time = Null,
          item_category = JStr ''general'', item_location = Null,
          item_notes = Null, item_sequence_order = 1\<rparr>],
       items_next_id = 2,
       item_requests = [ItemsInsert (itemsToInsert ''p1'' half_day), ItemDelete ''0''],
       item_effects = [] \<rparr>"
  by (simp add: after_delete_def deleteScheduleItem_def Let_def busy_schedule_value
        half_day_items show_nat.simps digit_char_def)

lemma trim_typed_title: "trim (f_title typed_form) = ''Wrap''"
  by (simp add: typed_form_def trim_def is_ws_def)

theorem addScheduleItem_validation_witness:
  "trim (f_title (newItem fresh_schedule)) = []
   \<and> addScheduleItem True ''p1'' fresh_schedule = fresh_schedule
   \<and> trim (f_title (newItem after_delete)) \<noteq> []
   \<and> f_start_time (newItem after_delete) \<noteq> []
   \<and> f_end_time (newItem after_delete) = []
   \<and> (\<exists>row. scheduleItems (addScheduleItem True ''p1'' after_delete)
                 = scheduleItems after_delete @ [row]
             \<and> item_title row = JStr ''Wrap'' \<and> item_end_time row = Null)"
proof -
  have h1: "trim (f_title (newItem fresh_schedule)) = []"
    by (simp add: fresh_schedule_def blank_form_def trim_def)
  have h2: "trim (f_title (newItem after_delete)) \<noteq> []"
    by (simp add: after_delete_value trim_typed_title)
  have h3: "f_start_time (newItem after_delete) \<noteq> []" "f_end_time (newItem after_delete) = []"
    by (simp_all add: after_delete_value typed_form_def)
  from addScheduleItem_validation [of fresh_schedule True "''p1''"] h1
  have c1: "addScheduleItem True ''p1'' fresh_schedule = fresh_schedule"
    by blast
  from addScheduleItem_validation [of after_delete True "''p1''"] h2 h3
  obtain row where "scheduleItems (addScheduleItem True ''p1'' after_delete)
                 = scheduleItems after_delete @ [row]"
     "item_title row = JStr (trim (f_title (newItem after_delete)))" "item_end_time row = Null"
    by blast
  then have c2: "\<exists>row. scheduleItems (addScheduleItem True ''p1'' after_delete)
                 = scheduleItems after_delete @ [row]
             \<and> item_title row = JStr ''Wrap'' \<and> item_end_time row = Null"
    by (auto simp add: after_delete_value trim_typed_title)
  show ?thesis
    using h1 h2 h3 c1 c2 by blast
qed


section \<open>Sequence index on creation\<close>

lemma createLook_sequence_index:
  assumes "trim (newLookName w) \<noteq> []"
  shows "\<exists>row. looks (createLook True now pid w) = looks w @ [row]
           \<and> looks_table (createLook True now pid w) = looks_table w @ [row]
           \<and> look_sequence_order row =
               (if looks w = [] then 0 else Max (set (map look_sequence_order (looks w))) + 1)"
proof (cases "looks w")
  case Nil
  with assms show ?thesis
    by (simp add: createLook_def Let_def nextOrder_def store_look_def)
next
  case (Cons l rest)
  have "fold max (map look_sequence_order rest) (look_sequence_order l)
          = Max (set (map look_sequence_order (l # rest)))"
    using Max.set_eq_fold [of "look_sequence_order l" "map look_sequence_order rest"] by simp
  with assms Cons show ?thesis
    by (simp add: createLook_def Let_def nextOrder_def store_look_def)
qed

lemma addScheduleItem_sequence_index:
  assumes "trim (f_title (newItem w)) \<noteq> []" "f_start_time (newItem w) \<noteq> []"
  shows "\<exists>row. scheduleItems (addScheduleItem True pid w) = scheduleItems w @ [row]
           \<and> item_sequence_order row = int (length (scheduleItems w))"
  using assms
  by (simp add: addScheduleItem_def insert_items_def Let_def store_items_def store_item_def)

text \<open>
  Claim C1. The rule "maximum index among the siblings plus one, or 0 for an empty list"
  is what \<open>createLook\<close> computes (\<open>createLook_sequence_index\<close>). \<open>addScheduleItem\<close>
  takes the number of siblings instead (\<open>addScheduleItem_sequence_index\<close>), and the two
  differ as soon as the indices are not \<open>0 .. n - 1\<close>: after the half-day template is
  applied and its first item deleted, the one remaining item has index 1, and the item
  added next receives index 1 again, where the rule gives 2.
\<close>

theorem addScheduleItem_index_after_delete:
  "map item_sequence_order (scheduleItems after_delete) = [1]
   \<and> map item_sequence_order (scheduleItems (addScheduleItem True ''p1'' after_delete)) = [1, 1]"
  by (simp add: after_delete_value addScheduleItem_def insert_items_def Let_def
       store_items_def store_item_def typed_form_def trim_def is_ws_def)

section \<open>Failures of multi-step operations\<close>

text \<open>
  Claim C6, as the code has it. No path through \<open>applyTemplate\<close> raises an alert: the
  alerts in the effect log after the call are those before it, whether the delete or the
  insert fails or not. When the delete fails, the insert is issued all the same. The
  reorder handlers raise no alert either, whatever the outcome of their two writes.
\<close>

theorem multi_step_failures_raise_no_alert:
  "filter is_alert (item_effects (applyTemplate c d i pid bps w)) = filter is_alert (item_effects w)
   \<and> (scheduleItems w \<noteq> [] \<longrightarrow>
        item_requests (applyTemplate True False i pid bps w)
          = item_requests w @ [ItemsDeleteByProduction pid, ItemsInsert (itemsToInsert pid bps)])
   \<and> look_effects (world_of (moveUp ok1 ok2 index v)) = look_effects v
   \<and> look_effects (world_of (moveDown ok1 ok2 index v)) = look_effects v"
  by (simp add: applyTemplate_def Let_def insert_items_def clear_schedule_def
        moveUp_def moveDown_def update_order_def)

theorem multi_step_failures_raise_no_alert_witness:
  "scheduleItems busy_schedule \<noteq> []
   \<and> item_requests (applyTemplate True False True ''p1'' half_day busy_schedule)
        = [ItemsInsert (itemsToInsert ''p1'' half_day), ItemsDeleteByProduction ''p1'',
           ItemsInsert (itemsToInsert ''p1'' half_day)]
   \<and> filter is_alert (item_effects (applyTemplate True False True ''p1'' half_day busy_schedule)) = []"
proof -
  have h: "scheduleItems busy_schedule \<noteq> []"
    by (simp add: busy_schedule_value half_day_items)
  note t = multi_step_failures_raise_no_alert [of True False True "''p1''" half_day busy_schedule]
  from t h have "item_requests (applyTemplate True False True ''p1'' half_day busy_schedule)
          = item_requests busy_schedule
              @ [ItemsDeleteByProduction ''p1'', ItemsInsert (itemsToInsert ''p1'' half_day)]"
    by blast
  moreover from t
  have "filter is_alert (item_effects (applyTemplate True False True ''p1'' half_day busy_schedule))
          = filter is_alert (item_effects busy_schedule)"
    by blast
  ultimately show ?thesis
    using h by (simp add: busy_schedule_value)
qed

text \<open>
  The claim as the spec words it fails: with a schedule of two items, the user confirming
  and the delete failing, the effect log holds no alert.
\<close>

theorem delete_failure_alert_counterexample:
  "\<not> list_ex is_alert
        (item_effects (applyTemplate True False True ''p1'' half_day busy_schedule))"
  by (simp add: applyTemplate_def Let_def insert_items_def clear_schedule_def
        busy_schedule_value half_day_items)


section \<open>Properties of the call sheet\<close>

lemma sheet_kinds:
  "map kind_of (callSheet fmt p crew lks) =
      [HeaderSec, InfoSec, LocationSec] @ (if crew = [] then [] else [CrewSec])
      @ (if lks = [] then [] else [LooksSec]) @ [EmergencySec]
      @ (if present (prod_special_notes p) then [NotesSec] else [])"
  by (simp add: callSheet_def)

lemma header_nodes:
  "section_nodes HeaderSec (callSheet fmt p crew lks) =
     [H1 ''CALL SHEET'', H2 (prod_name p)]
     @ (if present (prod_client_name p) then [P [''Client: '', the (prod_client_name p)]] else [])"
  by (simp add: callSheet_def section_nodes_def)

lemma info_nodes:
  "section_nodes InfoSec (callSheet fmt p crew lks) =
     [ Labelled ''Date:'' [if present (prod_shoot_date p) then fmt (the (prod_shoot_date p)) else ''TBD''],
       Labelled ''Call Time:'' [or_text (prod_call_time p) ''TBD''],
       Labelled ''Producer:'' [or_text (prod_producer_name p) ''TBD''],
       Labelled ''Phone:'' [or_text (prod_producer_phone p) ''TBD''] ]"
  by (simp add: callSheet_def section_nodes_def)

lemma location_nodes:
  "section_nodes LocationSec (callSheet fmt p crew lks) =
     [H3 ''LOCATION'', Labelled ''Address:'' [or_text (prod_location_address p) ''TBD'']]
     @ (if present (prod_location_details p)
        then [Labelled ''Details:'' [the (prod_location_details p)]] else [])
     @ (if present (prod_parking_info p)
        then [Labelled ''Parking:'' [the (prod_parking_info p)]] else [])
     @ (if present (prod_weather_backup p)
        then [Labelled ''Weather Backup:'' [the (prod_weather_backup p)]] else [])"
  by (simp add: callSheet_def section_nodes_def)

lemma crew_nodes:
  "section_nodes CrewSec (callSheet fmt p crew lks) =
     (if crew = [] then []
      else H3 ''CREW'' # TableHead [''Name'', ''Role'', ''Call Time'', ''Phone'']
           # map (\<lambda>member. TableRow [crew_name member, crew_role member,
                                        or_text (crew_call_time member) ''-'',
                                        or_text (crew_phone member) ''-'']) crew)"
  by (simp add: callSheet_def section_nodes_def)

lemma or_text_absent: "\<not> present v \<Longrightarrow> or_text v d = d"
  by (simp add: present_def or_text_def split: option.splits)

lemma present_iff: "present v \<longleftrightarrow> \<not> absent v"
  by (cases v) (simp_all add: present_def)

lemma or_text_cases: "or_text v d = (if absent v then d else the v)"
  by (cases v) (simp_all add: or_text_def)

lemma header_absent: "section_nodes HeaderSec (callSheet fmt p crew lks) =
        [H1 ''CALL SHEET'', H2 (prod_name p)]
        @ (if absent (prod_client_name p) then []
           else [P [''Client: '', the (prod_client_name p)]])"
    by (simp add: header_nodes present_iff)

lemma info_absent: "section_nodes InfoSec (callSheet fmt p crew lks) =
        [ Labelled ''Date:'' [if absent (prod_shoot_date p) then ''TBD''
                              else fmt (the (prod_shoot_date p))],
          Labelled ''Call Time:'' [if absent (prod_call_time p) then ''TBD''
                                   else the (prod_call_time p)],
          Labelled ''Producer:'' [if absent (prod_producer_name p) then ''TBD''
                                  else the (prod_producer_name p)],
          Labelled ''Phone:'' [if absent (prod_producer_phone p) then ''TBD''
                               else the (prod_producer_phone p)] ]"
    by (simp add: info_nodes present_iff or_text_cases)


lemma looks_nodes:
  "section_nodes LooksSec (callSheet fmt p crew lks) =
     (if lks = [] then []
      else H3 ''LOOKS''
           # map (\<lambda>(index, look). ListItem [''Look '', show_nat (index + 1), '': '', sl_name look])
               (enumerate 0 lks))"
  by (simp add: callSheet_def section_nodes_def)

lemma emergency_nodes:
  "section_nodes EmergencySec (callSheet fmt p crew lks) =
     [ H3 ''EMERGENCY CONTACTS'',
       Labelled ''Producer:'' [or_text (prod_producer_name p) ''TBD'', '' - '',
                              or_text (prod_producer_phone p) ''TBD''],
       Labelled ''Emergency Services:'' [''911''] ]"
  by (simp add: callSheet_def section_nodes_def)

lemma notes_nodes:
  "section_nodes NotesSec (callSheet fmt p crew lks) =
     (if present (prod_special_notes p)
      then [H3 ''SPECIAL NOTES'', P [the (prod_special_notes p)]] else [])"
  by (simp add: callSheet_def section_nodes_def)

lemma location_absent: "section_nodes LocationSec (callSheet fmt p crew lks) =
        [ H3 ''LOCATION'',
          Labelled ''Address:'' [if absent (prod_location_address p) then ''TBD''
                                 else the (prod_location_address p)] ]
        @ (if absent (prod_location_details p) then []
           else [Labelled ''Details:'' [the (prod_location_details p)]])
        @ (if absent (prod_parking_info p) then []
           else [Labelled ''Parking:'' [the (prod_parking_info p)]])
        @ (if absent (prod_weather_backup p) then []
           else [Labelled ''Weather Backup:'' [the (prod_weather_backup p)]])"
    by (simp add: location_nodes present_iff or_text_cases)

lemma crew_absent: "section_nodes CrewSec (callSheet fmt p crew lks) =
        (if crew = [] then []
         else H3 ''CREW'' # TableHead [''Name'', ''Role'', ''Call Time'', ''Phone'']
              # map (\<lambda>m. TableRow [crew_name m, crew_role m,
                                    if absent (crew_call_time m) then ''-''
                                    else the (crew_call_time m),
                                    if absent (crew_phone m) then ''-''
                                    else the (crew_phone m)]) crew)"
    by (simp add: crew_nodes or_text_cases)

lemma emergency_absent: "section_nodes EmergencySec (callSheet fmt p crew lks) =
        [ H3 ''EMERGENCY CONTACTS'',
          Labelled ''Producer:''
            [if absent (prod_producer_name p) then ''TBD'' else the (prod_producer_name p),
             '' - '',
             if absent (prod_producer_phone p) then ''TBD'' else the (prod_producer_phone p)],
          Labelled ''Emergency Services:'' [''911''] ]"
    by (simp add: emergency_nodes or_text_cases)

lemma notes_absent: "section_nodes NotesSec (callSheet fmt p crew lks) =
        (if absent (prod_special_notes p) then []
         else [H3 ''SPECIAL NOTES'', P [the (prod_special_notes p)]])"
    by (simp add: notes_nodes present_iff)


lemma crew_rows: "\<forall>m \<in> set crew.
         TableRow [crew_name m, crew_role m,
                   if absent (crew_call_time m) then ''-'' else the (crew_call_time m),
                   if absent (crew_phone m) then ''-'' else the (crew_phone m)]
           \<in> set (section_nodes CrewSec (callSheet fmt p crew lks))"
proof
  fix m assume m: "m \<in> set crew"
  then have ne: "crew \<noteq> []" by auto
  have "TableRow [crew_name m, crew_role m,
                   if absent (crew_call_time m) then ''-'' else the (crew_call_time m),
                   if absent (crew_phone m) then ''-'' else the (crew_phone m)]
          \<in> (\<lambda>m. TableRow [crew_name m, crew_role m,
                                    if absent (crew_call_time m) then ''-''
                                    else the (crew_call_time m),
                                    if absent (crew_phone m) then ''-''
                                    else the (crew_phone m)]) ` set crew"
    using m by (rule imageI)
  then show "TableRow [crew_name m, crew_role m,
                   if absent (crew_call_time m) then ''-'' else the (crew_call_time m),
                   if absent (crew_phone m) then ''-'' else the (crew_phone m)]
           \<in> set (section_nodes CrewSec (callSheet fmt p crew lks))"
    unfolding crew_absent using ne by (simp del: list.inject node.inject)
qed

text \<open>
  Claim C9, as the code has it. The sheet has its header, production info and location
  sections, then the crew section exactly when there is crew, the looks section exactly
  when there are looks, the emergency contacts, and the notes section exactly when there
  are notes. Each section is given node by node. A shoot date, call time, producer name,
  producer phone or address that is absent (null or empty) shows \<open>TBD\<close> in its line, the
  producer's name and phone in the emergency line as well; a present one shows its value
  (the date through the locale's formatter). An absent client name leaves the header with
  its two headings only; absent location details, parking info or weather backup have no
  line; absent notes have no section. Every crew member has one row, in order, with the
  name, the role, and for call time and phone each the value, or \<open>-\<close> when that one is
  absent.
\<close>

theorem call_sheet_sections_and_fallbacks:
  "map kind_of (callSheet fmt p crew lks) =
      [HeaderSec, InfoSec, LocationSec] @ (if crew = [] then [] else [CrewSec])
      @ (if lks = [] then [] else [LooksSec]) @ [EmergencySec]
      @ (if present (prod_special_notes p) then [NotesSec] else [])
   \<and> (\<not> present (prod_shoot_date p) \<longrightarrow>
         Labelled ''Date:'' [''TBD''] \<in> set (section_nodes InfoSec (callSheet fmt p crew lks)))
   \<and> (\<not> present (prod_call_time p) \<longrightarrow>
         Labelled ''Call Time:'' [''TBD''] \<in> set (section_nodes InfoSec (callSheet fmt p crew lks)))
   \<and> (\<not> present (prod_producer_name p) \<longrightarrow>
         Labelled ''Producer:'' [''TBD''] \<in> set (section_nodes InfoSec (callSheet fmt p crew lks)))
   \<and> (\<not> present (prod_producer_phone p) \<longrightarrow>
         Labelled ''Phone:'' [''TBD''] \<in> set (section_nodes InfoSec (callSheet fmt p crew lks)))
   \<and> (\<not> present (prod_location_address p) \<longrightarrow>
         Labelled ''Address:'' [''TBD''] \<in> set (section_nodes LocationSec (callSheet fmt p crew lks)))
   \<and> (\<not> present (prod_client_name p) \<longrightarrow>
         section_nodes HeaderSec (callSheet fmt p crew lks) = [H1 ''CALL SHEET'', H2 (prod_name p)])
   \<and> (\<not> present (prod_location_details p) \<longrightarrow>
         (\<forall>ts. Labelled ''Details:'' ts \<notin> set (section_nodes LocationSec (callSheet fmt p crew lks))))
   \<and> (\<not> present (prod_parking_info p) \<longrightarrow>
         (\<forall>ts. Labelled ''Parking:'' ts \<notin> set (section_nodes LocationSec (callSheet fmt p crew lks))))
   \<and> (\<not> present (prod_weather_backup p) \<longrightarrow>
         (\<forall>ts. Labelled ''Weather Backup:'' ts \<notin> set (section_nodes LocationSec (callSheet fmt p crew lks))))
   \<and> (\<forall>m \<in> set crew.
         TableRow [crew_name m, crew_role m,
                   if absent (crew_call_time m) then ''-'' else the (crew_call_time m),
                   if absent (crew_phone m) then ''-'' else the (crew_phone m)]
           \<in> set (section_nodes CrewSec (callSheet fmt p crew lks)))
   \<and> (present (prod_special_notes p) \<longleftrightarrow> \<not> absent (prod_special_notes p))
   \<and> section_nodes HeaderSec (callSheet fmt p crew lks) =
        [H1 ''CALL SHEET'', H2 (prod_name p)]
        @ (if absent (prod_client_name p) then []
           else [P [''Client: '', the (prod_client_name p)]])
   \<and> section_nodes InfoSec (callSheet fmt p crew lks) =
        [ Labelled ''Date:'' [if absent (prod_shoot_date p) then ''TBD''
                              else fmt (the (prod_shoot_date p))],
          Labelled ''Call Time:'' [if absent (prod_call_time p) then ''TBD''
                                   else the (prod_call_time p)],
          Labelled ''Producer:'' [if absent (prod_producer_name p) then ''TBD''
                                  else the (prod_producer_name p)],
          Labelled ''Phone:'' [if absent (prod_producer_phone p) then ''TBD''
                               else the (prod_producer_phone p)] ]
   \<and> section_nodes LocationSec (callSheet fmt p crew lks) =
        [ H3 ''LOCATION'',
          Labelled ''Address:'' [if absent (prod_location_address p) then ''TBD''
                                 else the (prod_location_address p)] ]
        @ (if absent (prod_location_details p) then []
           else [Labelled ''Details:'' [the (prod_location_details p)]])
        @ (if absent (prod_parking_info p) then []
           else [Labelled ''Parking:'' [the (prod_parking_info p)]])
        @ (if absent (prod_weather_backup p) then []
           else [Labelled ''Weather Backup:'' [the (prod_weather_backup p)]])
   \<and> section_nodes CrewSec (callSheet fmt p crew lks) =
        (if crew = [] then []
         else H3 ''CREW'' # TableHead [''Name'', ''Role'', ''Call Time'', ''Phone'']
              # map (\<lambda>m. TableRow [crew_name m, crew_role m,
                                    if absent (crew_call_time m) then ''-''
                                    else the (crew_call_time m),
                                    if absent (crew_phone m) then ''-''
                                    else the (crew_phone m)]) crew)
   \<and> section_nodes LooksSec (callSheet fmt p crew lks) =
        (if lks = [] then []
         else H3 ''LOOKS''
              # map (\<lambda>(index, look). ListItem [''Look '', show_nat (index + 1), '': '', sl_name look])
                  (enumerate 0 lks))
   \<and> section_nodes EmergencySec (callSheet fmt p crew lks) =
        [ H3 ''EMERGENCY CONTACTS'',
          Labelled ''Producer:''
            [if absent (prod_producer_name p) then ''TBD'' else the (prod_producer_name p),
             '' - '',
             if absent (prod_producer_phone p) then ''TBD'' else the (prod_producer_phone p)],
          Labelled ''Emergency Services:'' [''911''] ]
   \<and> section_nodes NotesSec (callSheet fmt p crew lks) =
        (if absent (prod_special_notes p) then []
         else [H3 ''SPECIAL NOTES'', P [the (prod_special_notes p)]])"
proof -
  have old:
    "map kind_of (callSheet fmt p crew lks) =
      [HeaderSec, InfoSec, LocationSec] @ (if crew = [] then [] else [CrewSec])
      @ (if lks = [] then [] else [LooksSec]) @ [EmergencySec]
      @ (if present (prod_special_notes p) then [NotesSec] else [])"
    "\<not> present (prod_shoot_date p) \<longrightarrow>
         Labelled ''Date:'' [''TBD''] \<in> set (section_nodes InfoSec (callSheet fmt p crew lks))"
    "\<not> present (prod_call_time p) \<longrightarrow>
         Labelled ''Call Time:'' [''TBD''] \<in> set (section_nodes InfoSec (callSheet fmt p crew lks))"
    "\<not> present (prod_producer_name p) \<longrightarrow>
         Labelled ''Producer:'' [''TBD''] \<in> set (section_nodes InfoSec (callSheet fmt p crew lks))"
    "\<not> present (prod_producer_phone p) \<longrightarrow>
         Labelled ''Phone:'' [''TBD''] \<in> set (section_nodes InfoSec (callSheet fmt p crew lks))"
    "\<not> present (prod_location_address p) \<longrightarrow>
         Labelled ''Address:'' [''TBD''] \<in> set (section_nodes LocationSec (callSheet fmt p crew lks))"
    "\<not> present (prod_client_name p) \<longrightarrow>
         section_nodes HeaderSec (callSheet fmt p crew lks) = [H1 ''CALL SHEET'', H2 (prod_name p)]"
    "\<not> present (prod_location_details p) \<longrightarrow>
         (\<forall>ts. Labelled ''Details:'' ts \<notin> set (section_nodes LocationSec (callSheet fmt p crew lks)))"
    "\<not> present (prod_parking_info p) \<longrightarrow>
         (\<forall>ts. Labelled ''Parking:'' ts \<notin> set (section_nodes LocationSec (callSheet fmt p crew lks)))"
    "\<not> present (prod_weather_backup p) \<longrightarrow>
         (\<forall>ts. Labelled ''Weather Backup:'' ts \<notin> set (section_nodes LocationSec (callSheet fmt p crew lks)))"
    by (auto simp add: sheet_kinds header_nodes info_nodes location_nodes or_text_absent)
  note new = crew_rows [of crew fmt p lks] present_iff [of "prod_special_notes p"]
    header_absent [of fmt p crew lks] info_absent [of fmt p crew lks]
    location_absent [of fmt p crew lks] crew_absent [of fmt p crew lks]
    looks_nodes [of fmt p crew lks] emergency_absent [of fmt p crew lks]
    notes_absent [of fmt p crew lks]
  show ?thesis
    by (intro conjI) (rule old new)+
qed

theorem call_sheet_sections_and_fallbacks_witness:
  "\<not> present (prod_shoot_date bare_production)
   \<and> \<not> present (prod_call_time bare_production)
   \<and> \<not> present (prod_producer_name bare_production)
   \<and> \<not> present (prod_producer_phone bare_production)
   \<and> \<not> present (prod_location_address bare_production)
   \<and> \<not> present (prod_client_name bare_production)
   \<and> \<not> present (prod_location_details bare_production)
   \<and> \<not> present (prod_parking_info bare_production)
   \<and> \<not> present (prod_weather_backup bare_production)
   \<and> assistant \<in> set [stylist, assistant]
   \<and> map kind_of (callSheet (\<lambda>d. d) bare_production [] [])
        = [HeaderSec, InfoSec, LocationSec, EmergencySec]
   \<and> section_nodes InfoSec (callSheet (\<lambda>d. d) bare_production [stylist, assistant] [])
        = [Labelled ''Date:'' [''TBD''], Labelled ''Call Time:'' [''TBD''],
           Labelled ''Producer:'' [''TBD''], Labelled ''Phone:'' [''TBD'']]
   \<and> section_nodes EmergencySec (callSheet (\<lambda>d. d) bare_production [stylist, assistant] [])
        = [H3 ''EMERGENCY CONTACTS'', Labelled ''Producer:'' [''TBD'', '' - '', ''TBD''],
           Labelled ''Emergency Services:'' [''911'']]
   \<and> section_nodes CrewSec (callSheet (\<lambda>d. d) bare_production [stylist, assistant] [])
        = [H3 ''CREW'', TableHead [''Name'', ''Role'', ''Call Time'', ''Phone''],
           TableRow [''Ana'', ''Stylist'', ''-'', ''-''],
           TableRow [''Bo'', ''Assistant'', ''-'', ''555-0101'']]
   \<and> TableRow [''Bo'', ''Assistant'', ''-'', ''555-0101'']
        \<in> set (section_nodes CrewSec (callSheet (\<lambda>d. d) bare_production [stylist, assistant] []))"
proof -
  have h: "\<not> present (prod_shoot_date bare_production)"
     "\<not> present (prod_call_time bare_production)"
     "\<not> present (prod_producer_name bare_production)"
     "\<not> present (prod_producer_phone bare_production)"
     "\<not> present (prod_location_address bare_production)"
     "\<not> present (prod_client_name bare_production)"
     "\<not> present (prod_location_details bare_production)"
     "\<not> present (prod_parking_info bare_production)"
     "\<not> present (prod_weather_backup bare_production)"
     "\<not> present (prod_special_notes bare_production)"
    by (simp_all add: bare_production_def present_def)
  have g: "assistant \<in> set [stylist, assistant]"
    by simp
  from call_sheet_sections_and_fallbacks [of "\<lambda>d. d" bare_production "[]" "[]"] h
  have k: "map kind_of (callSheet (\<lambda>d. d) bare_production [] [])
             = [HeaderSec, InfoSec, LocationSec, EmergencySec]"
    by simp
  note t = call_sheet_sections_and_fallbacks [of "\<lambda>d. d" bare_production "[stylist, assistant]" "[]"]
  from t g
  have "TableRow [crew_name assistant, crew_role assistant,
                   if absent (crew_call_time assistant) then ''-'' else the (crew_call_time assistant),
                   if absent (crew_phone assistant) then ''-'' else the (crew_phone assistant)]
             \<in> set (section_nodes CrewSec (callSheet (\<lambda>d. d) bare_production [stylist, assistant] []))"
    by blast
  then have r: "TableRow [''Bo'', ''Assistant'', ''-'', ''555-0101'']
        \<in> set (section_nodes CrewSec (callSheet (\<lambda>d. d) bare_production [stylist, assistant] []))"
    by (simp add: assistant_def)
  have i: "section_nodes InfoSec (callSheet (\<lambda>d. d) bare_production [stylist, assistant] [])
        = [Labelled ''Date:'' [''TBD''], Labelled ''Call Time:'' [''TBD''],
           Labelled ''Producer:'' [''TBD''], Labelled ''Phone:'' [''TBD'']]"
    using h by (simp add: info_nodes or_text_absent)
  have e: "section_nodes EmergencySec (callSheet (\<lambda>d. d) bare_production [stylist, assistant] [])
        = [H3 ''EMERGENCY CONTACTS'', Labelled ''Producer:'' [''TBD'', '' - '', ''TBD''],
           Labelled ''Emergency Services:'' [''911'']]"
    using h by (simp add: emergency_nodes or_text_absent)
  have c: "section_nodes CrewSec (callSheet (\<lambda>d. d) bare_production [stylist, assistant] [])
        = [H3 ''CREW'', TableHead [''Name'', ''Role'', ''Call Time'', ''Phone''],
           TableRow [''Ana'', ''Stylist'', ''-'', ''-''],
           TableRow [''Bo'', ''Assistant'', ''-'', ''555-0101'']]"
    by (simp add: crew_nodes or_text_def stylist_def assistant_def)
  show ?thesis
    using h g k i e c r by (simp only: simp_thms)
qed

text \<open>
  The claim as the spec words it fails: in the sheet of a production with no client name,
  location details, parking info, weather backup or notes, and a crew member without call
  time or phone, the text \<open>TBD\<close> appears nowhere.
\<close>

theorem absent_field_tbd_counterexample:
  "\<not> present (prod_client_name planned_production)
   \<and> \<not> present (prod_parking_info planned_production)
   \<and> \<not> present (crew_call_time stylist)
   \<and> ''TBD'' \<notin> set (sheet_texts (callSheet (\<lambda>d. d) planned_production [stylist] []))"
  by (simp add: callSheet_def sheet_texts_def planned_production_def bare_production_def
        stylist_def present_def or_text_def)

section \<open>Properties of the PDF export\<close>

lemma length_page_loop:
  "length (page_loop H hl doc)
     = length doc + (if hl \<ge> 0 then nat \<lfloor>hl / pageHeight\<rfloor> + 1 else 0)"
proof (induction H hl doc rule: page_loop.induct)
  case (1 H hl doc)
  show ?case
  proof (cases "hl \<ge> 0")
    case False
    then show ?thesis by (subst page_loop.simps) simp
  next
    case True
    have a: "length (addImage (hl - H) (addPage doc)) = length doc + 1"
      by (simp add: addImage_def addPage_def)
    have b: "nat \<lfloor>(hl - pageHeight) / pageHeight\<rfloor> + 1 = nat \<lfloor>hl / pageHeight\<rfloor>"
      if p: "hl - pageHeight \<ge> 0"
    proof -
      have "(hl - pageHeight) / pageHeight = hl / pageHeight - 1"
        by (simp add: pageHeight_def diff_divide_distrib)
      then have f1: "\<lfloor>(hl - pageHeight) / pageHeight\<rfloor> = \<lfloor>hl / pageHeight\<rfloor> - 1"
        by simp
      have f2: "\<lfloor>hl / pageHeight\<rfloor> \<ge> 1"
        using p by (simp add: pageHeight_def le_floor_iff)
      show ?thesis unfolding f1 using f2 by arith
    qed
    have c: "\<lfloor>hl / pageHeight\<rfloor> = 0" if "\<not> hl - pageHeight \<ge> 0"
      using True that by (simp add: pageHeight_def floor_eq_iff)
    show ?thesis
      using True 1 [OF True] a b c
      by (subst page_loop.simps) auto
  qed
qed

lemma pages_of_finite_height:
  assumes "0 \<le> H"
  shows "int (length (page_loop H (H - pageHeight) (addImage 0 [[]]))) = \<lfloor>H / pageHeight\<rfloor> + 1"
proof (cases "H - pageHeight \<ge> 0")
  case True
  have "(H - pageHeight) / pageHeight = H / pageHeight - 1"
    by (simp add: pageHeight_def diff_divide_distrib)
  then have f1: "\<lfloor>(H - pageHeight) / pageHeight\<rfloor> = \<lfloor>H / pageHeight\<rfloor> - 1"
    by simp
  have f2: "\<lfloor>H / pageHeight\<rfloor> \<ge> 1"
    using True by (simp add: pageHeight_def le_floor_iff)
  show ?thesis
    using True f2 by (simp add: length_page_loop addImage_def f1)
next
  case False
  then have "\<lfloor>H / pageHeight\<rfloor> = 0"
    using assms by (simp add: pageHeight_def floor_eq_iff)
  with False show ?thesis
    by (simp add: length_page_loop addImage_def)
qed

text \<open>
  Claim C8. For a canvas of positive width the handler returns (the loop terminates) and
  saves one document under the production's name; with \<open>H\<close> the image height in page
  units, the document has \<open>floor (H / 295) + 1\<close> pages. That is the number of bands
  needed to cover \<open>H\<close> unless \<open>H\<close> is a positive multiple of 295: there the loop runs
  once more (its test is \<open>heightLeft >= 0\<close>) and emits a page on which the image lies
  wholly above the sheet. The canvas of 420 by 590 pixels, of height 295, gives two pages
  where one band covers it.
\<close>

theorem generatePDF_page_count:
  assumes "0 < width c"
  shows "\<exists>doc. generatePDF True (Some p) (Some c) w = Some (save_pdf p doc w)
           \<and> int (length doc)
               = \<lfloor>(of_nat (height c) * imgWidth / of_nat (width c)) / pageHeight\<rfloor> + 1"
proof -
  define H :: rat where "H = of_nat (height c) * imgWidth / of_nat (width c)"
  have "0 \<le> H"
    by (simp add: H_def imgWidth_def)
  then have n: "int (length (page_loop H (H - pageHeight) (addImage 0 [[]])))
                  = \<lfloor>H / pageHeight\<rfloor> + 1"
    by (rule pages_of_finite_height)
  have "imgHeight c = Finite H"
    using assms by (simp add: imgHeight_def H_def)
  then have g: "generatePDF True (Some p) (Some c) w
                  = Some (save_pdf p (page_loop H (H - pageHeight) (addImage 0 [[]])) w)"
    by (simp add: generatePDF_def)
  from g n show ?thesis
    unfolding H_def by blast
qed

theorem generatePDF_page_count_witness:
  "0 < width one_band_canvas
   \<and> \<lceil>(of_nat (height one_band_canvas) * imgWidth / of_nat (width one_band_canvas)) / pageHeight\<rceil> = 1
   \<and> generatePDF True (Some planned_production) (Some one_band_canvas) idle_sheet
       = Some (save_pdf planned_production [[0], [- 295]] idle_sheet)
   \<and> (\<exists>doc. generatePDF True (Some planned_production) (Some one_band_canvas) idle_sheet
               = Some (save_pdf planned_production doc idle_sheet) \<and> int (length doc) = 2)"
proof -
  have h: "0 < width one_band_canvas"
    by (simp add: one_band_canvas_def)
  have q: "(of_nat (height one_band_canvas) * imgWidth / of_nat (width one_band_canvas) :: rat) = 295"
    by (simp add: one_band_canvas_def imgWidth_def)
  have i: "imgHeight one_band_canvas = Finite 295"
    by (simp add: imgHeight_def one_band_canvas_def imgWidth_def)
  have l: "page_loop 295 (295 - pageHeight) (addImage 0 [[]]) = [[0], [- 295]]"
    by (simp add: page_loop.simps pageHeight_def addImage_def addPage_def)
  have e: "generatePDF True (Some planned_production) (Some one_band_canvas) idle_sheet
       = Some (save_pdf planned_production [[0], [- 295]] idle_sheet)"
    by (simp add: generatePDF_def i l)
  from generatePDF_page_count [OF h, of planned_production idle_sheet]
  have "\<exists>doc. generatePDF True (Some planned_production) (Some one_band_canvas) idle_sheet
               = Some (save_pdf planned_production doc idle_sheet) \<and> int (length doc) = 2"
    unfolding q by (simp add: pageHeight_def)
  with h e q show ?thesis
    by (simp add: pageHeight_def)
qed

section \<open>Properties of the duration label\<close>

lemma bitlen_bounds: "0 < n \<Longrightarrow> n < 2 ^ bitlen n \<and> 2 ^ bitlen n \<le> 2 * n"
proof (induction n rule: bitlen.induct)
  case (1 n)
  show ?case
  proof (cases "n div 2 \<le> 0")
    case True
    with 1 have "n = 1" by presburger
    then show ?thesis by (simp add: bitlen.simps)
  next
    case False
    then have pos: "0 < n div 2" by simp
    from 1 have b: "bitlen n = Suc (bitlen (n div 2))"
      by (subst bitlen.simps) simp
    from 1 have "\<not> n \<le> 0" by simp
    from 1(1) [OF this pos]
    have ih: "n div 2 < 2 ^ bitlen (n div 2)" "2 ^ bitlen (n div 2) \<le> 2 * (n div 2)"
      by auto
    from ih(1) have "n < 2 * 2 ^ bitlen (n div 2)" by presburger
    moreover from ih(2) have "2 * 2 ^ bitlen (n div 2) \<le> 2 * n" by presburger
    ultimately show ?thesis by (simp add: b)
  qed
qed

lemma powi_split: "(2::rat) powi s = 2 ^ nat s / 2 ^ nat (- s)"
  by (cases "0 \<le> s") (simp_all add: power_int_def field_simps)

lemma round_half_even_error:
  assumes "0 < q"
  shows "\<bar>of_int (round_half_even p q) - (of_int p / of_int q :: rat)\<bar> \<le> 1 / 2"
proof -
  define f where "f = p div q"
  define r where "r = p mod q"
  define t :: rat where "t = of_int r / of_int q"
  have p: "p = q * f + r" by (simp add: f_def r_def)
  have r: "0 \<le> r" "r < q" using assms by (simp_all add: r_def)
  have q: "(of_int p / of_int q :: rat) = of_int f + t"
    using assms by (simp add: p t_def field_simps)
  have c1: "t \<le> 1 / 2" if "2 * r < q"
    using assms that by (simp add: t_def field_simps)
  have c2: "1 / 2 \<le> t" if "q \<le> 2 * r"
    using assms that by (simp add: t_def field_simps)
  have c3: "t < 1" "0 \<le> t"
    using assms r by (simp_all add: t_def)
  consider "2 * r < q" | "q < 2 * r" | "q = 2 * r" by linarith
  then show ?thesis
  proof cases
    case 1
    then have "round_half_even p q = f"
      by (simp add: round_half_even_def f_def r_def)
    with c1 [OF 1] c3 show ?thesis unfolding q by simp
  next
    case 2
    then have "round_half_even p q = f + 1"
      by (simp add: round_half_even_def f_def r_def)
    with c2 2 c3 show ?thesis unfolding q by simp
  next
    case 3
    then have "round_half_even p q = f \<or> round_half_even p q = f + 1"
      by (simp add: round_half_even_def f_def r_def)
    moreover have "t = 1 / 2" using c2 [of] 3 assms by (simp add: t_def)
    ultimately show ?thesis unfolding q by auto
  qed
qed

lemma round_half_even_exact:
  assumes "0 < q" "q dvd p"
  shows "round_half_even p q = p div q"
  using assms by (simp add: round_half_even_def)

lemma scaled_ratio:
  "of_int (n * 2 ^ nat s) / of_int (b * 2 ^ nat (- s)) = ratio n b s"
  by (simp add: ratio_def powi_split)

lemma ratio_pred: "ratio n b (s - 1) = ratio n b s / 2"
  by (simp add: ratio_def power_int_diff)

lemma shift0_bounds:
  assumes "0 < n" "0 < b"
  shows "2 ^ 52 < ratio n b (shift0 n b)" "ratio n b (shift0 n b) < 2 ^ 54"
proof -
  define N B P Q :: rat where "N = of_int n" and "B = of_int b"
    and "P = 2 ^ bitlen n" and "Q = 2 ^ bitlen b"
  from bitlen_bounds [OF assms(1)] bitlen_bounds [OF assms(2)]
  have i: "n < 2 ^ bitlen n" "2 ^ bitlen n \<le> 2 * n" "b < 2 ^ bitlen b" "2 ^ bitlen b \<le> 2 * b"
    by simp_all
  have "(of_int n :: rat) < of_int (2 ^ bitlen n)" using i(1) by (simp only: of_int_less_iff)
  moreover have "(of_int (2 ^ bitlen n) :: rat) \<le> of_int (2 * n)" using i(2) by (simp only: of_int_le_iff)
  moreover have "(of_int b :: rat) < of_int (2 ^ bitlen b)" using i(3) by (simp only: of_int_less_iff)
  moreover have "(of_int (2 ^ bitlen b) :: rat) \<le> of_int (2 * b)" using i(4) by (simp only: of_int_le_iff)
  ultimately have b: "N < P" "P \<le> 2 * N" "B < Q" "Q \<le> 2 * B"
    by (simp_all add: N_def B_def P_def Q_def)
  have pos: "0 < N" "0 < B" "0 < P" "0 < Q"
    using assms by (simp_all add: N_def B_def P_def Q_def)
  have r: "ratio n b (shift0 n b) = N * (2 ^ 53 * Q / P) / B"
    by (simp add: ratio_def shift0_def N_def B_def P_def Q_def power_int_add power_int_diff)
  have "N * Q < P * (2 * B)"
    using b pos by (intro mult_less_le_imp_less) simp_all
  then have "N * (2 ^ 53 * Q / P) / B < 2 ^ 54"
    using pos by (simp add: field_simps)
  then show "ratio n b (shift0 n b) < 2 ^ 54" by (simp only: r)
  have "P * B < (2 * N) * Q"
    using b pos by (intro mult_le_less_imp_less) simp_all
  then have "2 ^ 52 < N * (2 ^ 53 * Q / P) / B"
    using pos by (simp add: field_simps)
  then show "2 ^ 52 < ratio n b (shift0 n b)" by (simp only: r)
qed

lemma shift_test:
  assumes "0 < b"
  shows "(2 ^ 53 * (b * 2 ^ nat (- s)) \<le> n * 2 ^ nat s) \<longleftrightarrow> 2 ^ 53 \<le> ratio n b s"
proof -
  have d: "(0::rat) < of_int (b * 2 ^ nat (- s))" using assms by simp
  have "(2 ^ 53 \<le> ratio n b s) \<longleftrightarrow> (2 ^ 53 * of_int (b * 2 ^ nat (- s)) \<le> (of_int (n * 2 ^ nat s) :: rat))"
    unfolding scaled_ratio [symmetric] using d by (simp add: pos_le_divide_eq)
  also have "\<dots> \<longleftrightarrow> ((of_int (2 ^ 53 * (b * 2 ^ nat (- s))) :: rat) \<le> of_int (n * 2 ^ nat s))"
    by simp
  also have "\<dots> \<longleftrightarrow> (2 ^ 53 * (b * 2 ^ nat (- s)) \<le> n * 2 ^ nat s)"
    by (rule of_int_le_iff)
  finally show ?thesis by simp
qed

lemma shift_normal:
  assumes "0 < n" "0 < b"
  shows "2 ^ 52 \<le> ratio n b (shift n b)" "ratio n b (shift n b) < 2 ^ 53"
proof -
  note b = shift0_bounds [OF assms]
  show "2 ^ 52 \<le> ratio n b (shift n b)"
  proof (cases "2 ^ 53 \<le> ratio n b (shift0 n b)")
    case True
    then have "shift n b = shift0 n b - 1"
      unfolding shift_def shift_test [OF assms(2)] by (rule if_P)
    with True show ?thesis by (simp add: ratio_pred)
  next
    case False
    then have "shift n b = shift0 n b"
      unfolding shift_def shift_test [OF assms(2)] by (rule if_not_P)
    with b show ?thesis by simp
  qed
  show "ratio n b (shift n b) < 2 ^ 53"
  proof (cases "2 ^ 53 \<le> ratio n b (shift0 n b)")
    case True
    then have "shift n b = shift0 n b - 1"
      unfolding shift_def shift_test [OF assms(2)] by (rule if_P)
    with b show ?thesis by (simp add: ratio_pred)
  next
    case False
    then have "shift n b = shift0 n b"
      unfolding shift_def shift_test [OF assms(2)] by (rule if_not_P)
    with False show ?thesis by simp
  qed
qed

lemma ratio_unscale: "0 < b \<Longrightarrow> ratio n b s * 2 powi (- s) = of_int n / of_int b"
  by (simp add: ratio_def power_int_minus field_simps)

lemma fl_pos_error:
  assumes "0 < n" "0 < b"
  shows "\<bar>dbl_val (fl_pos n b) - of_int n / of_int b\<bar> \<le> (of_int n / of_int b) / 2 ^ 53"
proof -
  define s where "s = shift n b"
  define m where "m = round_half_even (n * 2 ^ nat s) (b * 2 ^ nat (- s))"
  define R where "R = ratio n b s"
  define u :: rat where "u = 2 powi (- s)"
  have u: "0 < u" by (simp add: u_def)
  have "0 < b * 2 ^ nat (- s)" using assms by simp
  from round_half_even_error [OF this, of "n * 2 ^ nat s"]
  have e: "\<bar>of_int m - R\<bar> \<le> 1 / 2"
    by (simp only: m_def R_def scaled_ratio)
  have q: "of_int n / of_int b = R * u"
    using ratio_unscale [OF assms(2), of n s] by (simp add: R_def u_def)
  have v: "dbl_val (fl_pos n b) = of_int m * u"
    by (simp add: fl_pos_def m_def s_def u_def)
  have "2 ^ 52 \<le> R" using shift_normal(1) [OF assms] by (simp add: R_def s_def)
  then have "2 ^ 52 * u \<le> R * u" using u by (intro mult_right_mono) simp_all
  then have w: "u / 2 \<le> (R * u) / 2 ^ 53" by simp
  have "\<bar>of_int m * u - R * u\<bar> = \<bar>of_int m - R\<bar> * u"
    using u by (simp add: abs_mult left_diff_distrib [symmetric])
  also have "\<dots> \<le> (1 / 2) * u" using e u by (intro mult_right_mono) simp_all
  also have "\<dots> \<le> (R * u) / 2 ^ 53" using w by simp
  finally show ?thesis by (simp only: v q)
qed

lemma fl_pos_exact:
  assumes "0 < n" "0 < b" "b dvd 2 * n" "n < b * 2 ^ 52"
  shows "dbl_val (fl_pos n b) = of_int n / of_int b"
proof -
  define s where "s = shift n b"
  have R: "2 ^ 52 \<le> ratio n b s" using shift_normal(1) [OF assms(1,2)] by (simp add: s_def)
  have "(of_int n :: rat) < of_int (b * 2 ^ 52)" using assms(4) by (simp only: of_int_less_iff)
  then have lt: "(of_int n / of_int b :: rat) < 2 ^ 52"
    using assms(2) by (simp add: field_simps)
  have s1: "1 \<le> s"
  proof (rule ccontr)
    assume "\<not> 1 \<le> s"
    then have "s \<le> 0" by simp
    then have "(2::rat) powi s \<le> 1"
      by (simp add: powi_split)
    then have "of_int n * 2 powi s \<le> (of_int n :: rat) * 1"
      using assms(1) by (intro mult_left_mono) simp_all
    then have "ratio n b s \<le> of_int n / of_int b"
      using assms(2) by (simp add: ratio_def divide_right_mono)
    with R lt show False by simp
  qed
  then have den: "b * 2 ^ nat (- s) = b" by simp
  from s1 obtain k where k: "nat s = Suc k" by (cases "nat s") auto
  have num: "n * 2 ^ nat s = (2 * n) * 2 ^ k" by (simp add: k)
  have dv: "b dvd n * 2 ^ nat s" unfolding num using assms(3) by (rule dvd_mult2)
  have m: "round_half_even (n * 2 ^ nat s) (b * 2 ^ nat (- s)) = (n * 2 ^ nat s) div b"
    unfolding den using assms(2) dv by (rule round_half_even_exact)
  from dv obtain c where c: "n * 2 ^ nat s = b * c" by (rule dvdE)
  have "(of_int ((n * 2 ^ nat s) div b) :: rat) = of_int (n * 2 ^ nat s) / of_int b"
    unfolding c using assms(2) by simp
  also have "\<dots> = ratio n b s"
    using scaled_ratio [of n s b] by (simp only: den)
  finally have "dbl_val (fl_pos n b) = ratio n b s * 2 powi (- s)"
    by (simp add: fl_pos_def s_def [symmetric] m)
  then show ?thesis by (simp only: ratio_unscale [OF assms(2)])
qed

lemma dbl_val_neg: "dbl_val (dbl_neg x) = - dbl_val x"
  by (cases x) simp

lemma fl_div_error:
  assumes "0 < b"
  shows "\<bar>dbl_val (fl_div a b) - of_int a / of_int b\<bar> \<le> \<bar>of_int a / of_int b\<bar> / 2 ^ 53"
proof -
  consider "a = 0" | "0 < a" | "a < 0" by linarith
  then show ?thesis
  proof cases
    case 1
    then show ?thesis by (simp add: fl_div_def)
  next
    case 2
    with fl_pos_error [OF 2 assms] assms show ?thesis
      by (simp add: fl_div_def)
  next
    case 3
    then have p: "0 < - a" by simp
    have "\<bar>- dbl_val (fl_pos (- a) b) - of_int a / of_int b\<bar>
            = \<bar>dbl_val (fl_pos (- a) b) - of_int (- a) / of_int b\<bar>"
      by (simp add: abs_minus_commute)
    also have "\<dots> \<le> (of_int (- a) / of_int b) / 2 ^ 53"
      by (rule fl_pos_error [OF p assms])
    also have "\<dots> = \<bar>of_int a / of_int b\<bar> / 2 ^ 53"
      using 3 assms by (simp add: abs_if field_simps)
    finally show ?thesis using 3 by (simp add: fl_div_def dbl_val_neg)
  qed
qed

lemma fl_div_exact:
  assumes "0 < b" "b dvd 2 * a" "\<bar>a\<bar> < b * 2 ^ 52"
  shows "dbl_val (fl_div a b) = of_int a / of_int b"
proof -
  consider "a = 0" | "0 < a" | "a < 0" by linarith
  then show ?thesis
  proof cases
    case 1
    then show ?thesis by (simp add: fl_div_def)
  next
    case 2
    with assms have "dbl_val (fl_pos a b) = of_int a / of_int b"
      by (intro fl_pos_exact) simp_all
    with 2 show ?thesis by (simp add: fl_div_def)
  next
    case 3
    with assms have "dbl_val (fl_pos (- a) b) = of_int (- a) / of_int b"
      by (intro fl_pos_exact) simp_all
    with 3 show ?thesis by (simp add: fl_div_def dbl_val_neg)
  qed
qed

lemma dbl_less_int_val: "dbl_less_int x k \<longleftrightarrow> dbl_val x < of_int k"
proof (cases x)
  case (Double m e)
  show ?thesis
  proof (cases "0 \<le> e")
    case True
    then have "dbl_val x = of_int (m * 2 ^ nat e)"
      by (simp add: Double power_int_def)
    then show ?thesis using True by (simp add: Double del: of_int_mult of_int_power)
  next
    case False
    then have v: "dbl_val x = of_int m / 2 ^ nat (- e)"
      by (simp add: Double power_int_def field_simps)
    have "(of_int m / 2 ^ nat (- e) < (of_int k :: rat)) \<longleftrightarrow> ((of_int m :: rat) < of_int (k * 2 ^ nat (- e)))"
      by (simp add: pos_divide_less_eq)
    also have "\<dots> \<longleftrightarrow> m < k * 2 ^ nat (- e)" by (rule of_int_less_iff)
    finally have "dbl_val x < of_int k \<longleftrightarrow> m < k * 2 ^ nat (- e)"
      by (simp only: v)
    moreover have "dbl_less_int x k \<longleftrightarrow> m < k * 2 ^ nat (- e)"
      using False by (simp add: Double)
    ultimately show ?thesis by simp
  qed
qed

lemma scaled_round_val: "scaled_round c x = \<lfloor>of_int c * dbl_val x + 1 / 2\<rfloor>"
proof (cases x)
  case (Double m e)
  show ?thesis
  proof (cases "0 \<le> e")
    case True
    then have "of_int c * dbl_val x = of_int (c * m * 2 ^ nat e)"
      by (simp add: Double power_int_def)
    then have "\<lfloor>of_int c * dbl_val x + 1 / 2\<rfloor> = c * m * 2 ^ nat e"
      by (simp only: floor_eq_iff) simp
    then show ?thesis using True by (simp add: Double)
  next
    case False
    then obtain k where k: "nat (- e) = k" "nat (1 - e) = Suc k" by simp
    have "of_int c * dbl_val x + 1 / 2 = (of_int (2 * c * m + 2 ^ k) :: rat) / of_int (2 ^ Suc k)"
      using False k by (simp add: Double power_int_def field_simps)
    then have "\<lfloor>of_int c * dbl_val x + 1 / 2\<rfloor> = (2 * c * m + 2 ^ k) div 2 ^ Suc k"
      by (simp only: floor_divide_of_int_eq)
    then show ?thesis using False k by (simp add: Double)
  qed
qed

lemmas dbl_eval = fl_div_def fl_pos_def shift_def shift0_def bitlen.simps round_half_even_def


lemmas time_eval = calculateDuration_def getTime_def parse_time_def time_of_day_def digits_val_def
  digit_val_def diffHours_def diffMinutes_def Math_round_def toFixed1_def fixed1_def show_int_def
  show_nat.simps digit_char_def

lemma digit_val_le: "digit_val c = Some d \<Longrightarrow> d \<le> 9"
  by (auto simp add: digit_val_def split: if_splits)

lemma digits_fold_bound:
  "fold (\<lambda>c acc. case (acc, digit_val c) of (Some a, Some d) \<Rightarrow> Some (10 * a + d) | _ \<Rightarrow> None)
        ds acc = Some v \<Longrightarrow> \<exists>a. acc = Some a \<and> v < (a + 1) * 10 ^ length ds"
proof (induction ds arbitrary: acc)
  case Nil
  then show ?case by simp
next
  case (Cons c ds)
  from Cons.prems obtain a' where
    a': "(case (acc, digit_val c) of (Some a, Some d) \<Rightarrow> Some (10 * a + d) | _ \<Rightarrow> None) = Some a'"
        "v < (a' + 1) * 10 ^ length ds"
    using Cons.IH by fastforce
  from a'(1) obtain a d where ad: "acc = Some a" "digit_val c = Some d" "a' = 10 * a + d"
    by (auto split: option.splits)
  from digit_val_le [OF ad(2)] have "a' + 1 \<le> (a + 1) * 10" by (simp add: ad(3))
  then have "(a' + 1) * 10 ^ length ds \<le> ((a + 1) * 10) * 10 ^ length ds"
    by (rule mult_le_mono1)
  with a'(2) have "v < ((a + 1) * 10) * 10 ^ length ds" by linarith
  with ad(1) show ?case by (simp add: algebra_simps)
qed

lemma digits_val_bound: "digits_val ds = Some v \<Longrightarrow> v < 10 ^ length ds"
  using digits_fold_bound [of ds "Some 0" v] by (simp add: digits_val_def)

lemma time_of_day_range:
  assumes "time_of_day hh mm ss ms = Some t" "\<And>f. ms = Some f \<Longrightarrow> f < 1000"
  shows "0 \<le> t \<and> t \<le> 86400000"
proof -
  from assms(1) obtain h m s f where v: "hh = Some h" "mm = Some m" "ss = Some s" "ms = Some f"
    by (auto simp add: time_of_day_def split: option.splits)
  from assms(2) [OF v(4)] have f: "f < 1000" .
  from assms(1) v have c: "(h \<le> 23 \<and> m \<le> 59 \<and> s \<le> 59) \<or> (h = 24 \<and> m = 0 \<and> s = 0 \<and> f = 0)"
      and t: "t = int (((h * 60 + m) * 60 + s) * 1000 + f)"
    by (auto simp add: time_of_day_def split: if_splits)
  from c f have "((h * 60 + m) * 60 + s) * 1000 + f \<le> 86400000" by auto
  then show ?thesis unfolding t by linarith
qed

lemma parse_time_range:
  assumes "parse_time t = Some ms"
  shows "0 \<le> ms \<and> ms \<le> 86400000"
proof (cases "length t = 5 \<and> t ! 2 = CHR '':''")
  case True
  with assms
  have "time_of_day (digits_val (take 2 t)) (digits_val (drop 3 t)) (Some 0) (Some 0) = Some ms"
    by (simp add: parse_time_def)
  then show ?thesis by (rule time_of_day_range) simp
next
  case c5: False
  show ?thesis
  proof (cases "length t = 8 \<and> t ! 2 = CHR '':'' \<and> t ! 5 = CHR '':''")
    case True
    with assms c5
    have "time_of_day (digits_val (take 2 t)) (digits_val (take 2 (drop 3 t)))
             (digits_val (drop 6 t)) (Some 0) = Some ms"
      by (simp add: parse_time_def)
    then show ?thesis by (rule time_of_day_range) simp
  next
    case c8: False
    show ?thesis
    proof (cases "length t = 12 \<and> t ! 2 = CHR '':'' \<and> t ! 5 = CHR '':'' \<and> t ! 8 = CHR ''.''")
      case True
      with assms c5 c8
      have e: "time_of_day (digits_val (take 2 t)) (digits_val (take 2 (drop 3 t)))
             (digits_val (take 2 (drop 6 t))) (digits_val (drop 9 t)) = Some ms"
        by (simp add: parse_time_def)
      have "f < 1000" if "digits_val (drop 9 t) = Some f" for f
        using digits_val_bound [OF that] True by simp
      with e show ?thesis by (rule time_of_day_range)
    next
      case False
      with assms c5 c8 show ?thesis by (simp add: parse_time_def)
    qed
  qed
qed

lemma parse_time_empty: "parse_time [] = None"
  by (simp add: parse_time_def)

lemma ulp_bound_small: "0 < ulp_bound" "ulp_bound < 1 / 7200000"
  by (simp_all add: ulp_bound_def)

lemma fl_div_near:
  assumes "0 < b" "\<bar>a\<bar> \<le> 8192 * b"
  shows "dbl_val (fl_div a b) \<le> of_int a / of_int b + ulp_bound"
    and "of_int a / of_int b - ulp_bound \<le> dbl_val (fl_div a b)"
proof -
  have "\<bar>(of_int a :: rat)\<bar> \<le> of_int (8192 * b)"
    using assms(2) by (metis of_int_abs of_int_le_iff)
  then have "\<bar>(of_int a :: rat) / of_int b\<bar> \<le> 8192"
    using assms(1) by (simp add: field_simps)
  then have "\<bar>(of_int a :: rat) / of_int b\<bar> / 2 ^ 53 \<le> 8192 / 2 ^ 53"
    by (rule divide_right_mono) simp
  also have "(8192::rat) / 2 ^ 53 = ulp_bound" by (simp add: ulp_bound_def)
  finally have "\<bar>dbl_val (fl_div a b) - of_int a / of_int b\<bar> \<le> ulp_bound"
    using fl_div_error [OF assms(1), of a] by linarith
  then show "dbl_val (fl_div a b) \<le> of_int a / of_int b + ulp_bound"
    and "of_int a / of_int b - ulp_bound \<le> dbl_val (fl_div a b)"
    by linarith+
qed

lemma diffHours_less_one:
  assumes "\<bar>d\<bar> \<le> 86400000"
  shows "dbl_less_int (diffHours d) 1 \<longleftrightarrow> d < 3600000"
proof -
  define x where "x = dbl_val (diffHours d)"
  define q :: rat where "q = of_int d / of_int 3600000"
  have h: "0 < (3600000::int)" "\<bar>d\<bar> \<le> 8192 * 3600000"
    using assms by simp_all
  have n: "x \<le> q + ulp_bound" "q - ulp_bound \<le> x"
    using fl_div_near [OF h] by (simp_all add: x_def q_def diffHours_def)
  note u = ulp_bound_small
  consider "d < 3600000" | "d = 3600000" | "3600000 < d" by linarith
  then show ?thesis
  proof cases
    case 1
    then have "d \<le> 3599999" by simp
    then have "(of_int d :: rat) \<le> of_int 3599999" by (simp only: of_int_le_iff)
    then have "q \<le> 3599999 / 3600000" by (simp add: q_def)
    with n u have "x < 1" by linarith
    with 1 show ?thesis by (simp add: dbl_less_int_val x_def)
  next
    case 2
    have "dbl_val (fl_div 3600000 3600000) = of_int 3600000 / of_int 3600000"
      by (rule fl_div_exact) simp_all
    then show ?thesis by (simp add: 2 dbl_less_int_val diffHours_def)
  next
    case 3
    then have "3600001 \<le> d" by simp
    then have "of_int 3600001 \<le> (of_int d :: rat)" by (simp only: of_int_le_iff)
    then have "3600001 / 3600000 \<le> q" by (simp add: q_def)
    with n u have "1 < x" by linarith
    with 3 show ?thesis by (simp add: dbl_less_int_val x_def)
  qed
qed


lemma diffMinutes_value:
  assumes "\<bar>d\<bar> \<le> 86400000"
  shows "diffMinutes d = (d + 30000) div 60000"
proof -
  define x where "x = dbl_val (fl_div d 60000)"
  define q :: rat where "q = of_int d / of_int 60000"
  define K where "K = (d + 30000) div 60000"
  define r where "r = (d + 30000) mod 60000"
  have m: "diffMinutes d = \<lfloor>x + 1 / 2\<rfloor>"
    by (simp add: diffMinutes_def Math_round_def scaled_round_val x_def)
  have h: "0 < (60000::int)" "\<bar>d\<bar> \<le> 8192 * 60000"
    using assms by simp_all
  have n: "x \<le> q + ulp_bound" "q - ulp_bound \<le> x"
    using fl_div_near [OF h] by (simp_all add: x_def q_def)
  note u = ulp_bound_small
  have d: "d + 30000 = 60000 * K + r" by (simp add: K_def r_def)
  have r: "0 \<le> r" "r < 60000" by (simp_all add: r_def)
  have "(of_int (d + 30000) :: rat) = of_int (60000 * K + r)" by (simp only: d)
  then have qk: "q + 1 / 2 = of_int K + of_int r / 60000"
    by (simp add: q_def field_simps)
  show ?thesis
  proof (cases "r = 0")
    case True
    with d have "2 * d = 60000 * (2 * K - 1)" by simp
    then have "60000 dvd 2 * d" by (rule dvdI)
    moreover have "\<bar>d\<bar> < 60000 * 2 ^ 52" using assms by simp
    ultimately have "x = q"
      unfolding x_def q_def by (intro fl_div_exact) simp_all
    with qk True have "x + 1 / 2 = of_int K" by simp
    then show ?thesis by (simp add: m K_def)
  next
    case False
    with r have "1 \<le> r" "r \<le> 59999" by simp_all
    then have "of_int 1 \<le> (of_int r :: rat)" "(of_int r :: rat) \<le> of_int 59999"
      by (simp_all only: of_int_le_iff)
    then have "1 / 60000 \<le> (of_int r :: rat) / 60000" "(of_int r :: rat) / 60000 \<le> 59999 / 60000"
      by simp_all
    with qk n u have "of_int K \<le> x + 1 / 2" "x + 1 / 2 < of_int K + 1"
      by linarith+
    then have "\<lfloor>x + 1 / 2\<rfloor> = K" by (rule floor_unique)
    then show ?thesis by (simp add: m K_def)
  qed
qed

lemma toFixed_tenths:
  assumes "3600000 \<le> d" "d \<le> 86400000"
  shows "0 \<le> scaled_round 10 (diffHours d)"
    and "\<bar>of_int (scaled_round 10 (diffHours d)) / 10 - (of_int d :: rat) / 3600000\<bar> \<le> 1 / 20"
    and "\<not> dbl_less_int (diffHours d) 0"
proof -
  define x where "x = dbl_val (diffHours d)"
  define q :: rat where "q = of_int d / of_int 3600000"
  define n where "n = scaled_round 10 (diffHours d)"
  define K where "K = (d + 180000) div 360000"
  define r where "r = (d + 180000) mod 360000"
  have nf: "n = \<lfloor>10 * x + 1 / 2\<rfloor>"
    by (simp add: n_def scaled_round_val x_def)
  have h: "0 < (3600000::int)" "\<bar>d\<bar> \<le> 8192 * 3600000"
    using assms by simp_all
  have near: "x \<le> q + ulp_bound" "q - ulp_bound \<le> x"
    using fl_div_near [OF h] by (simp_all add: x_def q_def diffHours_def)
  note u = ulp_bound_small
  have "of_int 3600000 \<le> (of_int d :: rat)" using assms(1) by (simp only: of_int_le_iff)
  then have q1: "1 \<le> q" by (simp add: q_def)
  with near u have xpos: "0 < x" by linarith
  then show "\<not> dbl_less_int (diffHours d) 0"
    by (simp add: dbl_less_int_val x_def)
  have fl: "of_int n \<le> 10 * x + 1 / 2" "10 * x + 1 / 2 < of_int n + 1"
    unfolding nf by linarith+
  from fl(2) xpos have "(0::rat) < of_int n + 1" by linarith
  then have "(of_int 0 :: rat) < of_int (n + 1)" by simp
  then have "0 < n + 1" by (simp only: of_int_less_iff)
  then show "0 \<le> scaled_round 10 (diffHours d)" by (simp add: n_def)
  have d: "d + 180000 = 360000 * K + r" by (simp add: K_def r_def)
  have r: "0 \<le> r" "r < 360000" by (simp_all add: r_def)
  have "(of_int (d + 180000) :: rat) = of_int (360000 * K + r)" by (simp only: d)
  then have qk: "10 * q + 1 / 2 = of_int K + of_int r / 360000"
    by (simp add: q_def field_simps)
  have "\<bar>of_int n - 10 * q\<bar> \<le> 1 / 2"
  proof (cases "r = 0")
    case True
    with qk have t: "10 * q + 1 / 2 = of_int K" by simp
    with near u fl have "(of_int n :: rat) < of_int K + 1" "(of_int K :: rat) - 1 < of_int n + 1"
      by linarith+
    then have "(of_int n :: rat) < of_int (K + 1)" "(of_int (K - 1) :: rat) < of_int (n + 1)"
      by simp_all
    then have "n < K + 1" "K - 1 < n + 1" by (simp_all only: of_int_less_iff)
    then have "n = K \<or> n = K - 1" by linarith
    with t show ?thesis by auto
  next
    case False
    with r have "1 \<le> r" "r \<le> 359999" by simp_all
    then have "of_int 1 \<le> (of_int r :: rat)" "(of_int r :: rat) \<le> of_int 359999"
      by (simp_all only: of_int_le_iff)
    then have rr: "1 / 360000 \<le> (of_int r :: rat) / 360000" "(of_int r :: rat) / 360000 \<le> 359999 / 360000"
      by simp_all
    with qk near u have "of_int K \<le> 10 * x + 1 / 2" "10 * x + 1 / 2 < of_int K + 1"
      by linarith+
    then have "\<lfloor>10 * x + 1 / 2\<rfloor> = K" by (rule floor_unique)
    then have nk: "n = K" by (simp add: nf)
    show ?thesis unfolding nk using qk rr by linarith
  qed
  then have "\<bar>of_int n / 10 - q\<bar> \<le> 1 / 20" by linarith
  then show "\<bar>of_int (scaled_round 10 (diffHours d)) / 10 - (of_int d :: rat) / 3600000\<bar> \<le> 1 / 20"
    by (simp add: n_def q_def)
qed


text \<open>
  Claim C7. For a start and an end that are times of day, the label is the difference in
  minutes, rounded to the nearest minute, followed by \<open>min\<close> when the difference is under
  one hour (a negative difference included), and otherwise a number with one decimal
  followed by \<open>h\<close>, that number being a tenth nearest to the difference in hours. Without
  an end time (null or empty) the label is empty. The time zone's midnight plays no part.
\<close>

theorem calculateDuration_label:
  assumes "parse_time startTime = Some s" "parse_time endTime = Some e"
  shows "(e - s < 3600000 \<longrightarrow>
            calculateDuration midnight startTime (Some endTime)
              = show_int ((e - s + 30000) div 60000) @ ''min'')
       \<and> (3600000 \<le> e - s \<longrightarrow>
            (\<exists>n. calculateDuration midnight startTime (Some endTime)
                    = show_nat (n div 10) @ ''.'' @ show_nat (n mod 10) @ ''h''
                 \<and> \<bar>of_nat n / 10 - (of_int (e - s) :: rat) / 3600000\<bar> \<le> 1 / 20))
       \<and> calculateDuration midnight startTime None = []
       \<and> calculateDuration midnight startTime (Some []) = []"
proof -
  from assms have ne: "endTime \<noteq> []"
    by (auto simp add: parse_time_empty)
  from parse_time_range [OF assms(1)] parse_time_range [OF assms(2)]
  have d: "\<bar>e - s\<bar> \<le> 86400000" "e - s \<le> 86400000"
    by linarith+
  have c: "calculateDuration midnight startTime (Some endTime) =
            (if dbl_less_int (diffHours (e - s)) 1
             then show_int (diffMinutes (e - s)) @ ''min''
             else toFixed1 (diffHours (e - s)) @ ''h'')"
    using assms ne by (simp add: calculateDuration_def getTime_def)
  have short: "calculateDuration midnight startTime (Some endTime)
                 = show_int ((e - s + 30000) div 60000) @ ''min''"
    if "e - s < 3600000"
    using that by (simp add: c diffHours_less_one [OF d(1)] diffMinutes_value [OF d(1)])
  have long: "\<exists>n. calculateDuration midnight startTime (Some endTime)
                    = show_nat (n div 10) @ ''.'' @ show_nat (n mod 10) @ ''h''
                 \<and> \<bar>of_nat n / 10 - (of_int (e - s) :: rat) / 3600000\<bar> \<le> 1 / 20"
    if l: "3600000 \<le> e - s"
  proof -
    note t = toFixed_tenths [OF l d(2)]
    define n where "n = nat (scaled_round 10 (diffHours (e - s)))"
    have n: "scaled_round 10 (diffHours (e - s)) = int n"
      using t(1) by (simp add: n_def)
    have "calculateDuration midnight startTime (Some endTime)
            = show_nat (n div 10) @ ''.'' @ show_nat (n mod 10) @ ''h''"
      using l t(3) by (simp add: c diffHours_less_one [OF d(1)] toFixed1_def fixed1_def n)
    moreover have "\<bar>of_nat n / 10 - (of_int (e - s) :: rat) / 3600000\<bar> \<le> 1 / 20"
      using t(2) by (simp add: n)
    ultimately show ?thesis by blast
  qed
  have none: "calculateDuration midnight startTime None = []"
    "calculateDuration midnight startTime (Some []) = []"
    by (simp_all add: calculateDuration_def)
  from short long none show ?thesis by blast
qed

theorem calculateDuration_label_witness:
  "parse_time ''09:00'' = Some 32400000
   \<and> parse_time ''09:30'' = Some 34200000
   \<and> parse_time ''11:30'' = Some 41400000
   \<and> calculateDuration 946684800000 ''09:00'' (Some ''09:30'') = ''30min''
   \<and> calculateDuration 946684800000 ''09:00'' (Some ''11:30'') = ''2.5h''
   \<and> calculateDuration 946684800000 ''09:00'' None = []"
proof -
  have p: "parse_time ''09:00'' = Some 32400000" "parse_time ''09:30'' = Some 34200000"
      "parse_time ''11:30'' = Some 41400000"
    by (simp_all add: parse_time_def time_of_day_def digits_val_def digit_val_def)
  from calculateDuration_label [OF p(1) p(2), of 946684800000]
  have "calculateDuration 946684800000 ''09:00'' (Some ''09:30'')
          = show_int ((34200000 - 32400000 + 30000) div 60000) @ ''min''"
    by simp
  then have a: "calculateDuration 946684800000 ''09:00'' (Some ''09:30'') = ''30min''"
    by (simp add: show_int_def show_nat.simps digit_char_def)
  have b: "calculateDuration 946684800000 ''09:00'' (Some ''11:30'') = ''2.5h''"
    by (simp add: time_eval dbl_eval)
  from calculateDuration_label [OF p(1) p(3), of 946684800000]
  have c: "calculateDuration 946684800000 ''09:00'' None = []"
    by simp
  from p a b c show ?thesis by simp
qed

end
